theory Spec2Isabelle
  imports Main "HOL-Library.Sublist"
begin

chapter \<open>Lista de Tareas backend: user and task controllers\<close>

text \<open>
  A shallow embedding of the Express controllers of the task-management backend.
  Conventions used throughout:
  \<^item> a JavaScript string is a \<^typ>\<open>string\<close>; messages are kept as in the source, with
    accented letters written without their accent;
  \<^item> a request field that may be missing (\<open>undefined\<close>) is a \<^typ>\<open>string option\<close>;
  \<^item> an instant (\<open>Date.now()\<close>, the time value of a \<open>Date\<close>) is an \<^typ>\<open>int\<close> of
    milliseconds; an \<open>Invalid Date\<close> (time value \<open>NaN\<close>) is \<open>None\<close>;
  \<^item> each request is handled from start to end without interleaving of other requests;
  \<^item> library calls whose result the controllers only pass on (\<open>bcrypt\<close>, the token
    signer, the date parser, Mongoose's casting and validation of a document) are
    parameters of the handlers.
\<close>

section \<open>JavaScript values\<close>

text \<open>\<open>!v\<close> on a string-or-undefined value: undefined and the empty string are falsy.\<close>

definition truthy :: "string option \<Rightarrow> bool" where
  "truthy v = (case v of None \<Rightarrow> False | Some s \<Rightarrow> s \<noteq> [])"

section \<open>User controller: login\<close>

text \<open>The fields of a User document that the controllers read or write.\<close>

record user =
  user_id :: string
  firstName :: string
  lastName :: string
  age :: int
  email :: string
  password :: string
  resetPasswordToken :: "string option"
  resetPasswordExpires :: "int option"

text \<open>
  \<open>let loginAttempts = {}\<close>: the process-wide table, keyed by email, of
  \<open>{ count, lockedUntil }\<close> entries; \<open>lockedUntil: null\<close> is \<open>None\<close>. The handler
  reads and writes the table only under the email of a user it has found, and the user
  schema makes every stored email hold an \<open>@\<close>, so no key is a built-in property name
  of the object.
\<close>

record attempt =
  count :: nat
  lockedUntil :: "int option"

type_synonym login_attempts = "string \<rightharpoonup> attempt"

record credentials =
  body_email :: "string option"
  body_password :: "string option"

text \<open>The payload \<open>{ userId: user._id, email: user.email }\<close> handed to \<open>jwt.sign\<close>.\<close>

record jwt_payload =
  payload_userId :: string
  payload_email :: string

record 'tok cookie =
  cookie_name :: string
  cookie_token :: 'tok
  httpOnly :: bool
  secure :: bool
  sameSite :: string
  maxAge :: int

text \<open>
  What one call of \<open>login\<close> leaves behind: the response (status, message, the
  \<open>userId\<close> of the body, the cookie), the table \<open>loginAttempts\<close> after the call, and
  whether \<open>bcrypt.compare\<close> was called.
\<close>

record 'tok login_outcome =
  http_status :: nat
  message :: string
  userId_sent :: "string option"
  cookie_set :: "'tok cookie option"
  attempts_after :: login_attempts
  compare_called :: bool

definition reply :: "nat \<Rightarrow> string \<Rightarrow> login_attempts \<Rightarrow> bool \<Rightarrow> 'tok login_outcome" where
  "reply st msg la cmp =
     \<lparr>http_status = st, message = msg, userId_sent = None, cookie_set = None,
      attempts_after = la, compare_called = cmp\<rparr>"

text \<open>\<open>User.findOne({ email })\<close> on the users collection.\<close>

definition findOne_email :: "user list \<Rightarrow> string \<Rightarrow> user option" where
  "findOne_email users e = find (\<lambda>u. email u = e) users"

text \<open>
  \<open>loginAttempts[email].lockedUntil && loginAttempts[email].lockedUntil > Date.now()\<close>:
  \<open>null\<close> and \<open>0\<close> are falsy.
\<close>

definition is_locked :: "attempt \<Rightarrow> int \<Rightarrow> bool" where
  "is_locked a now = (case lockedUntil a of None \<Rightarrow> False | Some t \<Rightarrow> t \<noteq> 0 \<and> now < t)"

text \<open>
  \<open>exports.login\<close>. \<open>bcrypt_compare\<close> and \<open>jwt_sign\<close> are the library calls
  \<open>bcrypt.compare(password, user.password)\<close> and
  \<open>jwt.sign(payload, process.env.JWT_SECRET, { expiresIn: "2h" })\<close> (the lifetime is
  passed in seconds); \<open>production\<close> is \<open>process.env.NODE_ENV === "production"\<close>.
  The handler reads the clock twice: \<open>now_check\<close> is the \<open>Date.now()\<close> of the lock
  test, \<open>now_fail\<close> the \<open>Date.now()\<close> read when a failure sets the lock.
\<close>

definition login ::
  "(string \<Rightarrow> string \<Rightarrow> bool) \<Rightarrow> (jwt_payload \<Rightarrow> string \<Rightarrow> int \<Rightarrow> 'tok) \<Rightarrow> string \<Rightarrow> bool \<Rightarrow>
   user list \<Rightarrow> login_attempts \<Rightarrow> credentials \<Rightarrow> int \<Rightarrow> int \<Rightarrow> 'tok login_outcome" where
  "login bcrypt_compare jwt_sign JWT_SECRET production users loginAttempts body now_check now_fail =
    (case (body_email body, body_password body) of
       (Some e, Some pw) \<Rightarrow>
         if e = [] \<or> pw = [] then reply 400 ''Email y contrasena son requeridos'' loginAttempts False
         else
           (case findOne_email users e of
              None \<Rightarrow> reply 401 ''Credenciales invalidas'' loginAttempts False
            | Some u \<Rightarrow>
                let entry = (case loginAttempts e of
                               None \<Rightarrow> \<lparr>count = 0, lockedUntil = None\<rparr>
                             | Some a \<Rightarrow> a);
                    created = loginAttempts(e \<mapsto> entry)
                in
                if is_locked entry now_check then
                  reply 423 ''Demasiados intentos fallidos. Intenta nuevamente mas tarde.'' created False
                else if \<not> bcrypt_compare pw (password u) then
                  let counted = entry\<lparr>count := Suc (count entry)\<rparr>;
                      failed = (if 5 \<le> count counted
                                then counted\<lparr>lockedUntil := Some (now_fail + 15 * 60 * 1000)\<rparr>
                                else counted)
                  in reply 401 ''Credenciales invalidas'' (created(e \<mapsto> failed)) True
                else
                  \<lparr>http_status = 200, message = ''Login exitoso'', userId_sent = Some (user_id u),
                   cookie_set = Some
                     \<lparr>cookie_name = ''token'',
                      cookie_token = jwt_sign \<lparr>payload_userId = user_id u, payload_email = email u\<rparr>
                                       JWT_SECRET (2 * 60 * 60),
                      httpOnly = True,
                      secure = production,
                      sameSite = (if production then ''none'' else ''lax''),
                      maxAge = 2 * 60 * 60 * 1000\<rparr>,
                   attempts_after = created(e \<mapsto> entry\<lparr>count := 0\<rparr>),
                   compare_called = True\<rparr>)
     | _ \<Rightarrow> reply 400 ''Email y contrasena son requeridos'' loginAttempts False)"

text \<open>
  A run of login requests handled one after the other, each with its two clock
  readings: the responses' statuses in order, and the table after the last one.
\<close>

fun login_run ::
  "(string \<Rightarrow> string \<Rightarrow> bool) \<Rightarrow> (jwt_payload \<Rightarrow> string \<Rightarrow> int \<Rightarrow> 'tok) \<Rightarrow> string \<Rightarrow> bool \<Rightarrow>
   user list \<Rightarrow> login_attempts \<Rightarrow> (credentials \<times> int \<times> int) list \<Rightarrow> nat list \<times> login_attempts" where
  "login_run compare_fn sign_fn secret is_prod users la [] = ([], la)"
| "login_run compare_fn sign_fn secret is_prod users la ((body, now_check, now_fail) # rest) =
     (let out = login compare_fn sign_fn secret is_prod users la body now_check now_fail;
          (sts, la') = login_run compare_fn sign_fn secret is_prod users (attempts_after out) rest
      in (http_status out # sts, la'))"

text \<open>
  The entry the handler works on: the stored one, or the fresh
  \<open>{ count: 0, lockedUntil: null }\<close> it inserts when the email has none.
\<close>

definition entry_of :: "login_attempts \<Rightarrow> string \<Rightarrow> attempt" where
  "entry_of la e = (case la e of None \<Rightarrow> \<lparr>count = 0, lockedUntil = None\<rparr> | Some a \<Rightarrow> a)"

subsection \<open>A concrete deployment used to run the handlers\<close>

text \<open>A stand-in for \<open>bcrypt\<close>: a fixed prefix in the shape of a bcrypt hash, then the data.\<close>

definition demo_hash :: "string \<Rightarrow> string" where
  "demo_hash pw = ''$2b$10$Kq'' @ pw"

definition demo_compare :: "string \<Rightarrow> string \<Rightarrow> bool" where
  "demo_compare pw h = (h = demo_hash pw)"

definition demo_users :: "user list" where
  "demo_users =
     [\<lparr>user_id = ''u1'', firstName = ''Ana'', lastName = ''Diaz'', age = 30,
       email = ''ana@example.com'', password = demo_hash ''Clave#Segura1'',
       resetPasswordToken = Some ''r3s3t'', resetPasswordExpires = Some 3600000\<rparr>]"

definition demo_sign :: "jwt_payload \<Rightarrow> string \<Rightarrow> int \<Rightarrow> jwt_payload \<times> int" where
  "demo_sign p secret life = (p, life)"

definition wrong_attempt :: "int \<Rightarrow> credentials \<times> int \<times> int" where
  "wrong_attempt t =
     (\<lparr>body_email = Some ''ana@example.com'', body_password = Some ''nope''\<rparr>, t, t + 80)"

definition good_attempt :: credentials where
  "good_attempt = \<lparr>body_email = Some ''ana@example.com'', body_password = Some ''Clave#Segura1''\<rparr>"


section \<open>Session token and auth middleware\<close>

text \<open>
  Modelled from the spec: the Token Issuer/Verifier. The repository calls the
  \<open>jsonwebtoken\<close> library (\<open>jwt.sign\<close>, \<open>jwt.verify\<close>), whose code is not part of it. The
  spec describes a signed value carrying identity-id, email and expiry, verified by
  signature and expiry only. The token's clock counts seconds; \<open>mac\<close> is the keyed
  signature function.
\<close>

record token_claims =
  claim_userId :: string
  claim_email :: string
  iat :: int
  exp :: int

datatype session_token = SessionToken (claims: token_claims) (signature: string)

datatype token_error = JsonWebTokenError | TokenExpiredError

text \<open>
  Modelled from the spec: issuing a token at clock reading \<open>clock\<close> with a lifetime of
  \<open>expiresIn\<close> seconds (\<open>jwt.sign\<close>, missing from the sources).
\<close>

definition jwt_sign ::
  "(string \<Rightarrow> token_claims \<Rightarrow> string) \<Rightarrow> int \<Rightarrow> jwt_payload \<Rightarrow> string \<Rightarrow> int \<Rightarrow> session_token" where
  "jwt_sign mac clock payload secret expiresIn =
     (let c = \<lparr>claim_userId = payload_userId payload, claim_email = payload_email payload,
                iat = clock, exp = clock + expiresIn\<rparr>
      in SessionToken c (mac secret c))"

text \<open>
  Modelled from the spec: verifying a token at clock reading \<open>clock\<close> (\<open>jwt.verify\<close>,
  missing from the sources): the signature first, then the expiry; a token is expired
  from the instant \<open>exp\<close> on.
\<close>

definition jwt_verify ::
  "(string \<Rightarrow> token_claims \<Rightarrow> string) \<Rightarrow> int \<Rightarrow> session_token \<Rightarrow> string \<Rightarrow> token_error + token_claims" where
  "jwt_verify mac clock tok secret =
     (if signature tok \<noteq> mac secret (claims tok) then Inl JsonWebTokenError
      else if exp (claims tok) \<le> clock then Inl TokenExpiredError
      else Inr (claims tok))"

text \<open>
  \<open>authMiddleware\<close> (middleware/auth.js). The request's method and the \<open>token\<close> cookie
  (absent: \<open>None\<close>); the outcome is \<open>next()\<close> with \<open>req.user\<close> as it then stands, or the
  response sent. \<open>verify tok secret\<close> is \<open>jwt.verify(token, process.env.JWT_SECRET)\<close>,
  \<open>Inl\<close> when it throws. A cookie with an empty value, which the handler takes for a
  missing one, is not a value of the token type.
\<close>

record 'tok request =
  req_method :: string
  cookies_token :: "'tok option"

datatype 'u auth_outcome = Next "'u option" | Denied nat string

definition authMiddleware ::
  "('tok \<Rightarrow> string \<Rightarrow> 'err + 'u) \<Rightarrow> string \<Rightarrow> 'tok request \<Rightarrow> 'u auth_outcome" where
  "authMiddleware verify JWT_SECRET req =
     (if req_method req = ''OPTIONS'' then Next None
      else case cookies_token req of
        None \<Rightarrow> Denied 401 ''Access denied, token missing''
      | Some token \<Rightarrow>
          (case verify token JWT_SECRET of
             Inr decoded \<Rightarrow> Next (Some decoded)
           | Inl err \<Rightarrow> Denied 401 ''Invalid or expired token''))"

definition demo_mac :: "string \<Rightarrow> token_claims \<Rightarrow> string" where
  "demo_mac secret c = secret @ ''|'' @ claim_userId c @ ''|'' @ claim_email c"


section \<open>Errors and the central error handler\<close>

text \<open>
  A thrown error object: its \<open>name\<close>, \<open>message\<close>, \<open>code\<close>, \<open>statusCode\<close> and, for a
  Mongoose validation error, the messages of \<open>errors\<close>.
\<close>

record app_error =
  err_name :: string
  err_message :: string
  err_code :: "nat option"
  err_statusCode :: "nat option"
  err_errors :: "string list"

text \<open>\<open>const error = new Error(msg); error.statusCode = n; throw error\<close>.\<close>

definition http_error :: "nat \<Rightarrow> string \<Rightarrow> app_error" where
  "http_error n msg =
     \<lparr>err_name = ''Error'', err_message = msg, err_code = None, err_statusCode = Some n,
      err_errors = []\<rparr>"

text \<open>
  What a handler other than \<open>login\<close> leaves behind: the response's status, its
  \<open>message\<close>, the \<open>errors\<close> array of a validation failure, the document or id sent with
  it, and the collection after the call.
\<close>

record ('doc, 'st) handled =
  res_status :: nat
  res_message :: string
  res_errors :: "string list"
  res_doc :: "'doc option"
  store_after :: 'st

definition respond :: "nat \<Rightarrow> string \<Rightarrow> 'st \<Rightarrow> ('doc, 'st) handled" where
  "respond n msg st =
     \<lparr>res_status = n, res_message = msg, res_errors = [], res_doc = None, store_after = st\<rparr>"

text \<open>
  \<open>errorHandler\<close> (middleware/errorHandler.js), reached through \<open>next(error)\<close> before
  any header is sent; \<open>st\<close> is the collection as the failed handler left it.
\<close>

definition errorHandler :: "app_error \<Rightarrow> 'st \<Rightarrow> ('doc, 'st) handled" where
  "errorHandler err st =
     (if err_name err = ''ValidationError'' then
        (respond 400 ''Error de validacion'' st)\<lparr>res_errors := err_errors err\<rparr>
      else if err_code err = Some 11000 then respond 409 ''Error de duplicado'' st
      else if err_name err = ''JsonWebTokenError'' then respond 401 ''Token invalido'' st
      else if err_name err = ''TokenExpiredError'' then
        respond 401 ''Token expirado, por favor inicia sesion nuevamente'' st
      else
        respond (case err_statusCode err of None \<Rightarrow> 500 | Some n \<Rightarrow> if n = 0 then 500 else n)
          (if err_message err = [] then
             ''Error interno en el servidor, por favor intente nuevamente mas tarde''
           else err_message err)
          st)"

section \<open>User controller: signup and password reset\<close>

subsection \<open>The password patterns\<close>

definition char_code :: "char \<Rightarrow> nat" where
  "char_code c = of_char c"

definition lower_az :: "char \<Rightarrow> bool" where
  "lower_az c = (97 \<le> char_code c \<and> char_code c \<le> 122)"

definition upper_AZ :: "char \<Rightarrow> bool" where
  "upper_AZ c = (65 \<le> char_code c \<and> char_code c \<le> 90)"

definition digit :: "char \<Rightarrow> bool" where
  "digit c = (48 \<le> char_code c \<and> char_code c \<le> 57)"

text \<open>\<open>\w\<close> is \<open>[A-Za-z0-9_]\<close>; \<open>[\W_]\<close> is every other character, and the underscore.\<close>

definition word_char :: "char \<Rightarrow> bool" where
  "word_char c = (lower_az c \<or> upper_AZ c \<or> digit c \<or> char_code c = 95)"

definition nonword_or_underscore :: "char \<Rightarrow> bool" where
  "nonword_or_underscore c = (\<not> word_char c \<or> char_code c = 95)"

text \<open>The dot matches every character but a line terminator (here line feed, carriage return).\<close>

definition line_terminator :: "char \<Rightarrow> bool" where
  "line_terminator c = (char_code c = 10 \<or> char_code c = 13)"

text \<open>
  The lookahead \<open>(?=.*X)\<close> at the start of the input: some character of class \<open>X\<close> is
  reached over characters the dot matches.
\<close>

fun lookahead :: "(char \<Rightarrow> bool) \<Rightarrow> string \<Rightarrow> bool" where
  "lookahead X [] = False"
| "lookahead X (c # cs) = (X c \<or> (\<not> line_terminator c \<and> lookahead X cs))"

text \<open>\<open>.{8,}$\<close> from the start of the input: at least 8 characters, all matched by the dot.\<close>

definition dots_to_end :: "nat \<Rightarrow> string \<Rightarrow> bool" where
  "dots_to_end n s = (n \<le> length s \<and> list_all (\<lambda>c. \<not> line_terminator c) s)"

text \<open>
  \<open>passwordRegex.test(password)\<close> of \<open>signup\<close>, with
  \<open>passwordRegex = /^(?=.*[a-z])(?=.*[A-Z])(?=.*[\W_]).{8,}$/\<close>.
\<close>

definition passwordRegex_test :: "string \<Rightarrow> bool" where
  "passwordRegex_test s =
     (lookahead lower_az s \<and> lookahead upper_AZ s \<and> lookahead nonword_or_underscore s
      \<and> dots_to_end 8 s)"

text \<open>
  The validators \<open>userSchema\<close> declares on the path \<open>password\<close>: \<open>minlength: 8\<close> and the
  pattern \<open>/^(?=.*[a-z])(?=.*[A-Z])(?=.*\d)(?=.*[\W_]).{8,}$/\<close>. They return the messages
  of the validators that fail.
\<close>

definition userSchema_password :: "string \<Rightarrow> string list" where
  "userSchema_password s =
     (if length s < 8 then [''La contrasena debe tener al menos 8 caracteres''] else [])
     @ (if lookahead lower_az s \<and> lookahead upper_AZ s \<and> lookahead digit s
           \<and> lookahead nonword_or_underscore s \<and> dots_to_end 8 s
        then []
        else [''La contrasena debe incluir al menos una letra mayuscula, una minuscula y un caracter especial''])"

text \<open>
  The complexity policy in the spec's words: at least 8 characters, an uppercase letter, a
  lowercase letter and a special (non-word) character.
\<close>

definition complexity_policy :: "string \<Rightarrow> bool" where
  "complexity_policy s =
     (8 \<le> length s \<and> list_ex upper_AZ s \<and> list_ex lower_az s \<and> list_ex nonword_or_underscore s)"

subsection \<open>signup\<close>

record signup_body = credentials +
  body_firstName :: "string option"
  body_lastName :: "string option"
  body_age :: "int option"

text \<open>
  \<open>exports.signup\<close>. \<open>bcrypt_hash\<close> is \<open>bcrypt.hash(password, 10)\<close>; \<open>save\<close> is Mongoose's
  \<open>user.save()\<close> on the users collection (\<open>Inl\<close> when it throws); \<open>new_id\<close> is the \<open>_id\<close>
  the new document is given. A missing or zero \<open>age\<close> is falsy.
\<close>

definition signup ::
  "(string \<Rightarrow> string) \<Rightarrow> (user \<Rightarrow> user list \<Rightarrow> app_error + user list) \<Rightarrow> string \<Rightarrow>
   user list \<Rightarrow> signup_body \<Rightarrow> (string, user list) handled" where
  "signup bcrypt_hash save new_id users body =
     (case (body_firstName body, body_lastName body, body_age body, body_email body,
            body_password body) of
        (Some fn, Some ln, Some a, Some e, Some pw) \<Rightarrow>
          if fn = [] \<or> ln = [] \<or> a = 0 \<or> e = [] \<or> pw = [] then
            respond 400 ''Todos los campos son requeridos'' users
          else if \<not> passwordRegex_test pw then
            respond 400 ''La contrasena debe tener al menos 8 caracteres, incluir una letra mayuscula, una minuscula y un caracter especial'' users
          else
            (case findOne_email users e of
               Some existingUser \<Rightarrow>
                 respond 409 ''Este correo electronico ya se encuentra registrado'' users
             | None \<Rightarrow>
                 let hashedPassword = bcrypt_hash pw;
                     user = \<lparr>user_id = new_id, firstName = fn, lastName = ln, age = a, email = e,
                             password = hashedPassword,
                             resetPasswordToken = None, resetPasswordExpires = None\<rparr>
                 in
                 (case save user users of
                    Inl error \<Rightarrow> errorHandler error users
                  | Inr saved \<Rightarrow>
                      (respond 201 ''Usuario registrado exitosamente'' saved)
                        \<lparr>res_doc := Some (user_id user)\<rparr>))
      | _ \<Rightarrow> respond 400 ''Todos los campos son requeridos'' users)"

subsection \<open>resetPassword\<close>

text \<open>
  \<open>User.findOne({ resetPasswordToken: token, resetPasswordExpires: { $gt: Date.now() } })\<close>.
\<close>

definition findOne_reset :: "user list \<Rightarrow> string \<Rightarrow> int \<Rightarrow> user option" where
  "findOne_reset users token now =
     find (\<lambda>u. resetPasswordToken u = Some token
               \<and> (case resetPasswordExpires u of None \<Rightarrow> False | Some t \<Rightarrow> now < t)) users"

text \<open>
  \<open>exports.resetPassword\<close>. The new password goes from the request body straight to
  \<open>bcrypt.hash\<close>, which throws on a missing one; the document is then saved with the
  hash as its password and both reset fields cleared.
\<close>

definition resetPassword ::
  "(string \<Rightarrow> string) \<Rightarrow> (user \<Rightarrow> user list \<Rightarrow> app_error + user list) \<Rightarrow>
   user list \<Rightarrow> string \<Rightarrow> string option \<Rightarrow> int \<Rightarrow> (string, user list) handled" where
  "resetPassword bcrypt_hash save users token body_pw now =
     (case findOne_reset users token now of
        None \<Rightarrow> respond 400 ''Token invalido o expirado'' users
      | Some user \<Rightarrow>
          (case body_pw of
             None \<Rightarrow>
               errorHandler
                 \<lparr>err_name = ''Error'', err_message = ''data and salt arguments required'',
                  err_code = None, err_statusCode = None, err_errors = []\<rparr> users
           | Some pw \<Rightarrow>
               let hashedPassword = bcrypt_hash pw;
                   changed = user\<lparr>password := hashedPassword, resetPasswordToken := None,
                                  resetPasswordExpires := None\<rparr>
               in
               (case save changed users of
                  Inl error \<Rightarrow> errorHandler error users
                | Inr saved \<Rightarrow> respond 200 ''Contrasena actualizada correctamente'' saved)))"

text \<open>
  \<open>user.save()\<close> on a loaded document whose modified paths are \<open>password\<close> and the two
  reset fields: of these only \<open>password\<close> has validators in \<open>userSchema\<close>. A failure is a
  \<open>ValidationError\<close>; otherwise the document replaces the stored one with its \<open>_id\<close>.
\<close>

definition save_password_change :: "user \<Rightarrow> user list \<Rightarrow> app_error + user list" where
  "save_password_change doc users =
     (case userSchema_password (password doc) of
        [] \<Rightarrow> Inr (map (\<lambda>u. if user_id u = user_id doc then doc else u) users)
      | m # ms \<Rightarrow>
          Inl \<lparr>err_name = ''ValidationError'', err_message = ''User validation failed'',
               err_code = None, err_statusCode = None, err_errors = m # ms\<rparr>)"


section \<open>Task controller\<close>

text \<open>
  A stored Task document (\<open>taskSchema\<close>). Ids are the strings of well-formed ObjectIds;
  a request whose \<open>:id\<close> does not cast to an ObjectId is outside the model. A document
  without a \<open>status\<close> value has \<open>status = None\<close>.
\<close>

record task =
  task_id :: string
  userId :: string
  title :: string
  detail :: "string option"
  date :: string
  time :: string
  dueDate :: int
  status :: "string option"
  createdAt :: int

text \<open>\<open>const { title, detail, date, time, status } = req.body\<close>.\<close>

record task_body =
  body_title :: "string option"
  body_detail :: "string option"
  body_date :: "string option"
  body_time :: "string option"
  body_status :: "string option"

text \<open>
  The object \<open>{ title, detail, date, time, dueDate, status }\<close> handed to Mongoose, and
  the same with \<open>userId\<close> for a new document. \<open>dueDate_value\<close> is the \<open>Date\<close> the handler
  built: \<open>None\<close> when it is an \<open>Invalid Date\<close>.
\<close>

record task_fields = task_body +
  dueDate_value :: "int option"

record task_draft = task_fields +
  draft_userId :: string

text \<open>A value inside a template literal: \<open>undefined\<close> prints as the word.\<close>

definition template :: "string option \<Rightarrow> string" where
  "template v = (case v of None \<Rightarrow> ''undefined'' | Some s \<Rightarrow> s)"

text \<open>
  \<open>dueDate < new Date()\<close>: both sides become their time values, and a comparison with
  \<open>NaN\<close> is false.
\<close>

definition date_lt :: "int option \<Rightarrow> int \<Rightarrow> bool" where
  "date_lt d now = (case d of None \<Rightarrow> False | Some t \<Rightarrow> t < now)"

definition past_due :: app_error where
  "past_due = http_error 400 ''La fecha de vencimiento debe ser futura''"

definition not_found :: app_error where
  "not_found = http_error 404 ''Tarea no encontrada''"

subsection \<open>createTask\<close>

text \<open>
  \<open>exports.createTask\<close> for the authenticated user \<open>uid\<close> (\<open>req.user.userId\<close>) at
  instant \<open>now\<close> (\<open>new Date()\<close>). \<open>parseDate\<close> is the \<open>Date\<close> constructor on a string;
  \<open>save\<close> is \<open>new Task({...})\<close> followed by \<open>newTask.save()\<close>: the stored document and
  the collection with it, or the error thrown.
\<close>

definition createTask ::
  "(string \<Rightarrow> int option) \<Rightarrow> (task_draft \<Rightarrow> task list \<Rightarrow> app_error + task \<times> task list) \<Rightarrow>
   string \<Rightarrow> task list \<Rightarrow> task_body \<Rightarrow> int \<Rightarrow> (task, task list) handled" where
  "createTask parseDate save uid tasks body now =
     (if \<not> truthy (body_title body) \<or> \<not> truthy (body_date body) \<or> \<not> truthy (body_time body)
         \<or> \<not> truthy (body_status body)
      then errorHandler (http_error 400 ''Los campos title, dueDate y status son obligatorios'') tasks
      else
        let dueDate = parseDate (template (body_date body) @ ''T'' @ template (body_time body)) in
        if date_lt dueDate now then errorHandler past_due tasks
        else
          (case save \<lparr>body_title = body_title body, body_detail = body_detail body,
                      body_date = body_date body, body_time = body_time body,
                      body_status = body_status body, dueDate_value = dueDate,
                      draft_userId = uid\<rparr> tasks of
             Inl error \<Rightarrow> errorHandler error tasks
           | Inr (newTask, saved) \<Rightarrow>
               (respond 201 ''Tarea creada con exito'' saved)\<lparr>res_doc := Some newTask\<rparr>))"

text \<open>
  The rule of \<open>createTaskValidation\<close> (middleware/taskValidation.js) for \<open>status\<close>:
  \<open>body("status").optional().isIn(["todo", "in-progress", "done"])\<close>; it returns the
  messages of the failed checks.
\<close>

definition createTaskValidation_status :: "string option \<Rightarrow> string list" where
  "createTaskValidation_status v =
     (case v of
        None \<Rightarrow> []
      | Some s \<Rightarrow>
          if s \<in> set [''todo'', ''in-progress'', ''done''] then []
          else [''El estado debe ser uno de: todo, in-progress, done''])"

subsection \<open>Queries scoped by owner\<close>

text \<open>The filter \<open>{ _id: id, userId: req.user.userId }\<close>.\<close>

definition owned :: "string \<Rightarrow> string \<Rightarrow> task \<Rightarrow> bool" where
  "owned tid uid t = (task_id t = tid \<and> userId t = uid)"

text \<open>The first document a predicate selects is replaced, or removed.\<close>

fun replace_first :: "('a \<Rightarrow> bool) \<Rightarrow> ('a \<Rightarrow> 'a) \<Rightarrow> 'a list \<Rightarrow> 'a list" where
  "replace_first P f [] = []"
| "replace_first P f (x # xs) = (if P x then f x # xs else x # replace_first P f xs)"

fun remove_first :: "('a \<Rightarrow> bool) \<Rightarrow> 'a list \<Rightarrow> 'a list" where
  "remove_first P [] = []"
| "remove_first P (x # xs) = (if P x then xs else x # remove_first P xs)"

text \<open>
  \<open>Task.findOneAndUpdate({ _id: id, userId }, update, { new: true, runValidators: true })\<close>.
  \<open>cast\<close> is Mongoose's casting and validation of the update object, done before the
  query is sent: the error it throws, or the change the update makes to a document.
  The result is the changed document (\<open>null\<close> when the filter selects none) and the
  collection after the call.
\<close>

definition findOneAndUpdate ::
  "(task_fields \<Rightarrow> app_error + (task \<Rightarrow> task)) \<Rightarrow> string \<Rightarrow> string \<Rightarrow> task_fields \<Rightarrow> task list \<Rightarrow>
   app_error + task option \<times> task list" where
  "findOneAndUpdate cast tid uid upd tasks =
     (case cast upd of
        Inl error \<Rightarrow> Inl error
      | Inr change \<Rightarrow>
          Inr (map_option change (find (owned tid uid) tasks),
               replace_first (owned tid uid) change tasks))"

subsection \<open>updateTask, deleteTask, getTaskById\<close>

text \<open>
  \<open>exports.updateTask\<close> for the authenticated user \<open>uid\<close> and the task id \<open>tid\<close> of
  the route. No field of the body is required here, so \<open>date\<close> and \<open>time\<close> may be
  \<open>undefined\<close> when the due date is built.
\<close>

definition updateTask ::
  "(string \<Rightarrow> int option) \<Rightarrow> (task_fields \<Rightarrow> app_error + (task \<Rightarrow> task)) \<Rightarrow>
   string \<Rightarrow> task list \<Rightarrow> string \<Rightarrow> task_body \<Rightarrow> int \<Rightarrow> (task, task list) handled" where
  "updateTask parseDate cast uid tasks tid body now =
     (let dueDate = parseDate (template (body_date body) @ ''T'' @ template (body_time body)) in
      if date_lt dueDate now then errorHandler past_due tasks
      else
        (case findOneAndUpdate cast tid uid
                \<lparr>body_title = body_title body, body_detail = body_detail body,
                 body_date = body_date body, body_time = body_time body,
                 body_status = body_status body, dueDate_value = dueDate\<rparr> tasks of
           Inl error \<Rightarrow> errorHandler error tasks
         | Inr (None, after) \<Rightarrow> errorHandler not_found after
         | Inr (Some task, after) \<Rightarrow>
             (respond 200 ''Tarea actualizada'' after)\<lparr>res_doc := Some task\<rparr>))"

text \<open>\<open>exports.deleteTask\<close>, with \<open>Task.findOneAndDelete({ _id: id, userId })\<close>.\<close>

definition deleteTask :: "string \<Rightarrow> task list \<Rightarrow> string \<Rightarrow> (task, task list) handled" where
  "deleteTask uid tasks tid =
     (case find (owned tid uid) tasks of
        None \<Rightarrow> errorHandler not_found tasks
      | Some task \<Rightarrow> respond 200 ''Tarea eliminada con exito'' (remove_first (owned tid uid) tasks))"

text \<open>
  \<open>exports.getTaskById\<close>, with \<open>Task.findOne({ _id: id, userId })\<close>; the body of the
  200 response is the task itself.
\<close>

definition getTaskById :: "string \<Rightarrow> task list \<Rightarrow> string \<Rightarrow> (task, task list) handled" where
  "getTaskById uid tasks tid =
     (case find (owned tid uid) tasks of
        None \<Rightarrow> errorHandler not_found tasks
      | Some task \<Rightarrow> (respond 200 [] tasks)\<lparr>res_doc := Some task\<rparr>)"


subsection \<open>getTaskStats\<close>

text \<open>The grouping key \<open>{ $ifNull: ["$status", "sin-estado"] }\<close>.\<close>

definition ifNull_status :: "task \<Rightarrow> string" where
  "ifNull_status t = (case status t of None \<Rightarrow> ''sin-estado'' | Some s \<Rightarrow> s)"

text \<open>
  The stage \<open>$group\<close> with \<open>count: { $sum: 1 }\<close>: one pair per key, in the order in
  which the keys first occur. MongoDB fixes no order for the groups; the next stage
  sorts them.
\<close>

fun add_to_group :: "string \<Rightarrow> (string \<times> nat) list \<Rightarrow> (string \<times> nat) list" where
  "add_to_group k [] = [(k, 1)]"
| "add_to_group k ((k', n) # groups) =
     (if k = k' then (k', Suc n) # groups else (k', n) # add_to_group k groups)"

definition group_stage :: "task list \<Rightarrow> (string \<times> nat) list" where
  "group_stage ts = fold (\<lambda>t. add_to_group (ifNull_status t)) ts []"

text \<open>The stage \<open>{ $sort: { count: -1 } }\<close>, as an insertion sort by descending count.\<close>

fun insert_by_count :: "string \<times> nat \<Rightarrow> (string \<times> nat) list \<Rightarrow> (string \<times> nat) list" where
  "insert_by_count g [] = [g]"
| "insert_by_count g (h # hs) =
     (if snd h \<le> snd g then g # h # hs else h # insert_by_count g hs)"

definition sort_stage :: "(string \<times> nat) list \<Rightarrow> (string \<times> nat) list" where
  "sort_stage groups = foldr insert_by_count groups []"

record task_stats =
  total :: nat
  byStatus :: "(string \<times> nat) list"

text \<open>
  \<open>exports.getTaskStats\<close> for the authenticated user: the pipeline
  \<open>$match { userId }\<close>, \<open>$group\<close>, \<open>$sort\<close>, then \<open>Task.countDocuments({ userId })\<close>, then
  the reshaping of each group \<open>{ _id, count }\<close> into \<open>{ status, count }\<close>.
\<close>

definition getTaskStats :: "string \<Rightarrow> task list \<Rightarrow> (task_stats, task list) handled" where
  "getTaskStats uid tasks =
     (let stats = sort_stage (group_stage (filter (\<lambda>t. userId t = uid) tasks));
          totalTasks = length (filter (\<lambda>t. userId t = uid) tasks);
          byStatus = map (\<lambda>s. (fst s, snd s)) stats
      in (respond 200 [] tasks)\<lparr>res_doc := Some \<lparr>total = totalTasks, byStatus = byStatus\<rparr>\<rparr>)"

text \<open>The count a list of groups holds for a key: 0 when the key has no group.\<close>

definition count_in :: "(string \<times> nat) list \<Rightarrow> string \<Rightarrow> nat" where
  "count_in groups k = (case map_of groups k of None \<Rightarrow> 0 | Some n \<Rightarrow> n)"


subsection \<open>getUserTasks\<close>

text \<open>\<open>const { status, fromDate, toDate, order, title } = req.query\<close>.\<close>

record task_query =
  query_status :: "string option"
  query_fromDate :: "string option"
  query_toDate :: "string option"
  query_order :: "string option"
  query_title :: "string option"

text \<open>
  The filter object the handler builds. \<open>filter.dueDate\<close> holds \<open>$gte\<close> and \<open>$lte\<close>,
  each absent or a \<open>Date\<close> (\<open>None\<close> inside when it is an \<open>Invalid Date\<close>);
  \<open>filter.title\<close> holds \<open>$regex\<close> and \<open>$options\<close>.
\<close>

record date_bounds =
  bound_gte :: "int option option"
  bound_lte :: "int option option"

record task_filter =
  filter_userId :: string
  filter_status :: "string option"
  filter_dueDate :: "date_bounds option"
  filter_title :: "(string \<times> string) option"

text \<open>A query parameter as \<open>if (param)\<close> sees it: absent when undefined or empty.\<close>

definition present :: "string option \<Rightarrow> string option" where
  "present v = (if truthy v then v else None)"

definition build_filter :: "(string \<Rightarrow> int option) \<Rightarrow> string \<Rightarrow> task_query \<Rightarrow> task_filter" where
  "build_filter parseDate uid q =
     \<lparr>filter_userId = uid,
      filter_status = present (query_status q),
      filter_dueDate =
        (if truthy (query_fromDate q) \<or> truthy (query_toDate q)
         then Some \<lparr>bound_gte = map_option parseDate (present (query_fromDate q)),
                    bound_lte = map_option parseDate (present (query_toDate q))\<rparr>
         else None),
      filter_title = map_option (\<lambda>t. (t, ''i'')) (present (query_title q))\<rparr>"

definition cast_error :: app_error where
  "cast_error =
     \<lparr>err_name = ''CastError'', err_message = ''Cast to date failed'', err_code = None,
      err_statusCode = None, err_errors = []\<rparr>"

text \<open>A bound of the filter against a stored due date; an absent bound lets every date through.\<close>

definition within :: "date_bounds option \<Rightarrow> int \<Rightarrow> bool" where
  "within b d =
     (case b of
        None \<Rightarrow> True
      | Some r \<Rightarrow>
          (case bound_gte r of Some (Some lo) \<Rightarrow> lo \<le> d | _ \<Rightarrow> True)
          \<and> (case bound_lte r of Some (Some hi) \<Rightarrow> d \<le> hi | _ \<Rightarrow> True))"

definition invalid_bound :: "date_bounds option \<Rightarrow> bool" where
  "invalid_bound b =
     (case b of None \<Rightarrow> False | Some r \<Rightarrow> bound_gte r = Some None \<or> bound_lte r = Some None)"

text \<open>
  \<open>Task.find(filter)\<close>. \<open>regex pattern options\<close> is the store's regular-expression
  engine on \<open>$regex\<close> and \<open>$options\<close>: the error for a pattern it refuses, or the test it
  runs on a title. Mongoose refuses an \<open>Invalid Date\<close> in the filter with a cast error.
  The other conditions are equalities and inclusive bounds.
\<close>

definition find_tasks ::
  "(string \<Rightarrow> string \<Rightarrow> app_error + (string \<Rightarrow> bool)) \<Rightarrow> task_filter \<Rightarrow> task list \<Rightarrow>
   app_error + task list" where
  "find_tasks regex f tasks =
     (if invalid_bound (filter_dueDate f) then Inl cast_error
      else
        (case (case filter_title f of
                 None \<Rightarrow> Inr (\<lambda>s. True)
               | Some (pattern, options) \<Rightarrow> regex pattern options) of
           Inl error \<Rightarrow> Inl error
         | Inr title_matches \<Rightarrow>
             Inr (filter (\<lambda>t. userId t = filter_userId f
                           \<and> (case filter_status f of None \<Rightarrow> True | Some s \<Rightarrow> status t = Some s)
                           \<and> within (filter_dueDate f) (dueDate t)
                           \<and> title_matches (title t)) tasks)))"

text \<open>\<open>.sort({ dueDate: sortOrder })\<close> with \<open>sortOrder = order === "desc" ? -1 : 1\<close>.\<close>

definition sort_by_dueDate :: "string option \<Rightarrow> task list \<Rightarrow> task list" where
  "sort_by_dueDate order ts =
     (if order = Some ''desc'' then sort_key (\<lambda>t. - dueDate t) ts else sort_key dueDate ts)"

definition getUserTasks ::
  "(string \<Rightarrow> int option) \<Rightarrow> (string \<Rightarrow> string \<Rightarrow> app_error + (string \<Rightarrow> bool)) \<Rightarrow>
   string \<Rightarrow> task list \<Rightarrow> task_query \<Rightarrow> (task list, task list) handled" where
  "getUserTasks parseDate regex uid tasks q =
     (case find_tasks regex (build_filter parseDate uid q) tasks of
        Inl error \<Rightarrow> errorHandler error tasks
      | Inr found \<Rightarrow>
          (respond 200 [] tasks)\<lparr>res_doc := Some (sort_by_dueDate (query_order q) found)\<rparr>)"

subsection \<open>The regular expressions of the title filter\<close>

text \<open>
  The store evaluates \<open>$regex\<close> as a Perl-compatible regular expression, searched
  anywhere in the title. The engine below covers the patterns made of ordinary
  characters and the dot, which is all the properties need; it refuses every pattern
  that holds another metacharacter. With the option \<open>i\<close>, letters match in either case.
\<close>

datatype rx_item = Literal char | AnyChar

definition other_metachar :: "char \<Rightarrow> bool" where
  "other_metachar c =
     (char_code c \<in> set [92, 94, 36, 124, 63, 42, 43, 40, 41, 91, 93, 123, 125])"

fun compile_fragment :: "string \<Rightarrow> rx_item list option" where
  "compile_fragment [] = Some []"
| "compile_fragment (c # cs) =
     (if other_metachar c then None
      else map_option (Cons (if char_code c = 46 then AnyChar else Literal c))
             (compile_fragment cs))"

text \<open>The code of a character with an uppercase letter taken to its lowercase one.\<close>

definition case_code :: "char \<Rightarrow> nat" where
  "case_code c = (if upper_AZ c then char_code c + 32 else char_code c)"

definition same_char :: "bool \<Rightarrow> char \<Rightarrow> char \<Rightarrow> bool" where
  "same_char caseless a c = (if caseless then case_code a = case_code c else a = c)"

fun match_here :: "bool \<Rightarrow> rx_item list \<Rightarrow> string \<Rightarrow> bool" where
  "match_here caseless [] s = True"
| "match_here caseless (i # items) [] = False"
| "match_here caseless (AnyChar # items) (c # cs) =
     (char_code c \<noteq> 10 \<and> match_here caseless items cs)"
| "match_here caseless (Literal a # items) (c # cs) =
     (same_char caseless a c \<and> match_here caseless items cs)"

fun search :: "bool \<Rightarrow> rx_item list \<Rightarrow> string \<Rightarrow> bool" where
  "search caseless items [] = match_here caseless items []"
| "search caseless items (c # cs) =
     (match_here caseless items (c # cs) \<or> search caseless items cs)"

definition fragment_regex :: "string \<Rightarrow> string \<Rightarrow> app_error + (string \<Rightarrow> bool)" where
  "fragment_regex pattern options =
     (case compile_fragment pattern of
        None \<Rightarrow>
          Inl \<lparr>err_name = ''Error'', err_message = ''pattern outside the fragment'',
               err_code = None, err_statusCode = None, err_errors = []\<rparr>
      | Some items \<Rightarrow> Inr (search (CHR ''i'' \<in> set options) items))"

text \<open>
  The title filter in the spec's words: the title contains the parameter as a substring,
  letters compared without regard to case.
\<close>

definition contains_ci :: "string \<Rightarrow> string \<Rightarrow> bool" where
  "contains_ci needle hay = sublist (map case_code needle) (map case_code hay)"

definition title_query :: "string \<Rightarrow> task_query" where
  "title_query t =
     \<lparr>query_status = None, query_fromDate = None, query_toDate = None, query_order = None,
      query_title = Some t\<rparr>"


subsection \<open>A concrete deployment used to run the task handlers\<close>

text \<open>A stand-in for the \<open>Date\<close> constructor that knows two local date-times.\<close>

definition demo_parseDate :: "string \<Rightarrow> int option" where
  "demo_parseDate s =
     (if s = ''2030-01-01T10:00'' then Some 1893492000000
      else if s = ''2020-01-01T10:00'' then Some 1577872800000
      else None)"

text \<open>
  \<open>trim: true\<close> of \<open>taskSchema\<close>: the string without its leading and trailing white
  space (tab, line feed, vertical tab, form feed, carriage return, space, no-break
  space).
\<close>

definition js_space :: "char \<Rightarrow> bool" where
  "js_space c = (char_code c \<in> set [9, 10, 11, 12, 13, 32, 160])"

definition trim :: "string \<Rightarrow> string" where
  "trim s = rev (dropWhile js_space (rev (dropWhile js_space s)))"

definition status_enum :: "string list" where
  "status_enum = [''todo'', ''in-progress'', ''done'']"

text \<open>
  A Mongoose error without a status code of its own. The texts Mongoose puts in its
  errors are not fixed here: \<open>wording\<close> gives the message for a path (or for the model
  as a whole), and every stand-in below takes it as a parameter.
\<close>

definition mongoose_error :: "string \<Rightarrow> string \<Rightarrow> string list \<Rightarrow> app_error" where
  "mongoose_error nm msg msgs =
     \<lparr>err_name = nm, err_message = msg, err_code = None, err_statusCode = None,
      err_errors = msgs\<rparr>"

text \<open>
  The paths of a new document that fail \<open>taskSchema\<close>: \<open>title\<close> is trimmed and then
  required; \<open>date\<close> and \<open>time\<close> are required; \<open>dueDate\<close> is required and must be a valid
  date; \<open>status\<close>, when given, must be in the enum.
\<close>

definition draft_failures :: "task_draft \<Rightarrow> string list" where
  "draft_failures d =
     (if truthy (map_option trim (body_title d)) then [] else [''title''])
     @ (if truthy (body_date d) then [] else [''date''])
     @ (if truthy (body_time d) then [] else [''time''])
     @ (if dueDate_value d = None then [''dueDate''] else [])
     @ (case body_status d of
          None \<Rightarrow> []
        | Some s \<Rightarrow> if s \<in> set status_enum then [] else [''status''])"

text \<open>
  A stand-in for \<open>new Task(...).save()\<close> under \<open>taskSchema\<close>: a draft with a failing
  path is refused with a \<open>ValidationError\<close>; otherwise the document is stored at the end
  of the collection with its strings trimmed where the schema says so, the default
  \<open>todo\<close> for a missing \<open>status\<close>, and \<open>createdAt\<close> set to the current instant.
\<close>

definition demo_save ::
  "(string \<Rightarrow> string) \<Rightarrow> string \<Rightarrow> int \<Rightarrow> task_draft \<Rightarrow> task list \<Rightarrow> app_error + task \<times> task list" where
  "demo_save wording new_id now d tasks =
     (case (draft_failures d, body_title d, body_date d, body_time d, dueDate_value d) of
        ([], Some ti, Some da, Some tm, Some due) \<Rightarrow>
          let doc = \<lparr>task_id = new_id, userId = draft_userId d, title = trim ti,
                     detail = map_option trim (body_detail d), date = da, time = tm,
                     dueDate = due,
                     status = Some (case body_status d of None \<Rightarrow> ''todo'' | Some s \<Rightarrow> s),
                     createdAt = now\<rparr>
          in Inr (doc, tasks @ [doc])
      | _ \<Rightarrow>
          Inl (mongoose_error ''ValidationError'' (wording ''Task'')
                 (map wording (draft_failures d))))"

text \<open>
  The paths of an update object that fail the update validators (\<open>runValidators: true\<close>):
  a field that is present is checked as above, a field that is \<open>undefined\<close> is left out
  of the update.
\<close>

definition update_failures :: "task_fields \<Rightarrow> string list" where
  "update_failures upd =
     (case body_title upd of None \<Rightarrow> [] | Some ti \<Rightarrow> if trim ti = [] then [''title''] else [])
     @ (case body_date upd of None \<Rightarrow> [] | Some da \<Rightarrow> if da = [] then [''date''] else [])
     @ (case body_time upd of None \<Rightarrow> [] | Some tm \<Rightarrow> if tm = [] then [''time''] else [])
     @ (case body_status upd of
          None \<Rightarrow> []
        | Some s \<Rightarrow> if s \<in> set status_enum then [] else [''status''])"

text \<open>
  A stand-in for Mongoose's casting and validation of the update object of
  \<open>updateTask\<close>: an \<open>Invalid Date\<close> for \<open>dueDate\<close> is refused with a \<open>CastError\<close>, a failing
  path with a \<open>ValidationError\<close>; otherwise the fields that are present are set, trimmed
  where the schema says so.
\<close>

definition demo_cast :: "(string \<Rightarrow> string) \<Rightarrow> task_fields \<Rightarrow> app_error + (task \<Rightarrow> task)" where
  "demo_cast wording upd =
     (case dueDate_value upd of
        None \<Rightarrow> Inl (mongoose_error ''CastError'' (wording ''dueDate'') [])
      | Some due \<Rightarrow>
          if update_failures upd \<noteq> [] then
            Inl (mongoose_error ''ValidationError'' (wording ''Task'')
                   (map wording (update_failures upd)))
          else
            Inr (\<lambda>t. t\<lparr>title := (case body_title upd of None \<Rightarrow> title t | Some x \<Rightarrow> trim x),
                         detail := (case body_detail upd of
                                      None \<Rightarrow> detail t
                                    | Some x \<Rightarrow> Some (trim x)),
                         date := (case body_date upd of None \<Rightarrow> date t | Some x \<Rightarrow> x),
                         time := (case body_time upd of None \<Rightarrow> time t | Some x \<Rightarrow> x),
                         dueDate := due,
                         status := (case body_status upd of
                                      None \<Rightarrow> status t
                                    | Some x \<Rightarrow> Some x)\<rparr>))"

text \<open>The wording used when the handlers are run: the bare name of the path.\<close>

definition path_name :: "string \<Rightarrow> string" where
  "path_name p = p"

definition demo_task :: "string \<Rightarrow> string \<Rightarrow> string \<Rightarrow> string option \<Rightarrow> task" where
  "demo_task tid uid ti st =
     \<lparr>task_id = tid, userId = uid, title = ti, detail = None, date = ''2030-01-01'',
      time = ''10:00'', dueDate = 1893492000000, status = st, createdAt = 1690000000000\<rparr>"

definition demo_body :: "string \<Rightarrow> string option \<Rightarrow> task_body" where
  "demo_body day st =
     \<lparr>body_title = Some ''Comprar pan'', body_detail = None, body_date = Some day,
      body_time = Some ''10:00'', body_status = st\<rparr>"

definition demo_now :: int where
  "demo_now = 1700000000000"

text \<open>The value of a call that did not throw.\<close>

definition projr_opt :: "'a + 'b \<Rightarrow> 'b option" where
  "projr_opt r = (case r of Inl a \<Rightarrow> None | Inr b \<Rightarrow> Some b)"


chapter \<open>Properties\<close>

section \<open>Login throttle\<close>

text \<open>
  One failed attempt (a 401 for a registered email) leaves an entry whose count is one
  more than before, locked for 15 minutes from the failure's clock reading once the
  count is at least 5.
\<close>

lemma login_401_step:
  assumes "findOne_email users e = Some u"
    and "body_email body = Some e"
    and "http_status (login cmp sg secret pr users la body t t') = 401"
  shows "\<exists>entry. attempts_after (login cmp sg secret pr users la body t t') e = Some entry
           \<and> count entry = Suc (count (entry_of la e))
           \<and> (5 \<le> count entry \<longrightarrow> lockedUntil entry = Some (t' + 900000))"
  using assms
  by (auto simp: login_def reply_def entry_of_def Let_def split: option.splits if_splits)

lemma login_run_401:
  assumes "findOne_email users e = Some u"
  shows "login_run cmp sg secret pr users la reqs = (sts, la') \<Longrightarrow> reqs \<noteq> [] \<Longrightarrow>
     \<forall>r \<in> set reqs. body_email (fst r) = Some e \<Longrightarrow> \<forall>s \<in> set sts. s = 401 \<Longrightarrow>
     \<exists>entry. la' e = Some entry \<and> count entry = count (entry_of la e) + length reqs
        \<and> (5 \<le> count entry \<longrightarrow> lockedUntil entry = Some (snd (snd (last reqs)) + 900000))"
proof (induction reqs arbitrary: la sts)
  case Nil
  then show ?case by simp
next
  case (Cons r rest)
  obtain body t t' where r: "r = (body, t, t')" by (cases r)
  let ?out = "login cmp sg secret pr users la body t t'"
  obtain sts1 where run: "login_run cmp sg secret pr users (attempts_after ?out) rest = (sts1, la')"
    and sts: "sts = http_status ?out # sts1"
    using Cons.prems(1) r by (auto simp: Let_def split: prod.splits)
  have st: "http_status ?out = 401" using Cons.prems(4) sts by simp
  have em: "body_email body = Some e" using Cons.prems(3) r by simp
  from login_401_step[OF assms em st] obtain entry where
    entry: "attempts_after ?out e = Some entry" "count entry = Suc (count (entry_of la e))"
      "5 \<le> count entry \<longrightarrow> lockedUntil entry = Some (t' + 900000)" by blast
  show ?case
  proof (cases "rest = []")
    case True
    then have "la' = attempts_after ?out" using run by simp
    then show ?thesis using entry True r by simp
  next
    case False
    have "\<exists>entry'. la' e = Some entry'
        \<and> count entry' = count (entry_of (attempts_after ?out) e) + length rest
        \<and> (5 \<le> count entry' \<longrightarrow> lockedUntil entry' = Some (snd (snd (last rest)) + 900000))"
      using Cons.IH[OF run False] Cons.prems(3,4) sts by simp
    then show ?thesis using entry False by (auto simp: entry_of_def)
  qed
qed

text \<open>
  Claim C1. Take a registered email and five login requests for it, handled one after
  the other and each answered 401 (five consecutive failures), the last of them reading
  the clock at \<open>t5\<close> when it records its failure. Then every further well-formed request
  for that email whose lock test reads a clock below \<open>t5 + 15 min\<close> is answered 423,
  whatever the password and whatever \<open>bcrypt.compare\<close> would say, without calling
  \<open>bcrypt.compare\<close> and without changing the table; and a request with the correct
  password whose lock test reads a clock at or after \<open>t5 + 15 min\<close> is answered 200 and
  leaves the email's count at 0.
\<close>

theorem login_locked_after_five_failures:
  assumes user: "findOne_email users e = Some u"
    and run: "login_run cmp sg secret pr users la0 reqs = (sts, la5)"
    and five: "length reqs = 5"
    and same: "\<forall>r \<in> set reqs. body_email (fst r) = Some e"
    and failed: "\<forall>s \<in> set sts. s = 401"
    and clock: "0 \<le> snd (snd (last reqs))"
  shows "(\<forall>cmp' pw t t'. pw \<noteq> [] \<and> t < snd (snd (last reqs)) + 15 * 60 * 1000 \<longrightarrow>
            (let out = login cmp' sg secret pr users la5
                         \<lparr>body_email = Some e, body_password = Some pw\<rparr> t t'
             in http_status out = 423 \<and> \<not> compare_called out \<and> attempts_after out = la5))
       \<and> (\<forall>pw t t'. pw \<noteq> [] \<and> cmp pw (password u) \<and> snd (snd (last reqs)) + 15 * 60 * 1000 \<le> t \<longrightarrow>
            (let out = login cmp sg secret pr users la5
                         \<lparr>body_email = Some e, body_password = Some pw\<rparr> t t'
             in http_status out = 200 \<and> map_option count (attempts_after out e) = Some 0))"
proof -
  have ne: "reqs \<noteq> []" using five by auto
  from login_run_401[OF user run ne same failed] obtain entry where
    entry: "la5 e = Some entry" "count entry = count (entry_of la0 e) + length reqs"
      "5 \<le> count entry \<longrightarrow> lockedUntil entry = Some (snd (snd (last reqs)) + 900000)"
    by blast
  have lock: "lockedUntil entry = Some (snd (snd (last reqs)) + 900000)"
    using entry five by simp
  obtain body0 t0 t0' where hd: "hd reqs = (body0, t0, t0')" by (cases "hd reqs")
  have "http_status (login cmp sg secret pr users la0 body0 t0 t0') = 401"
    using run failed ne hd by (cases reqs) (auto simp: Let_def split: prod.splits)
  moreover have "body_email body0 = Some e" using same ne hd by (cases reqs) auto
  ultimately have e_ne: "e \<noteq> []"
    by (auto simp: login_def reply_def split: option.splits if_splits)
  have upd: "la5(e \<mapsto> entry) = la5" using entry(1) by (simp add: fun_upd_idem)
  show ?thesis
    using user entry(1) lock clock e_ne upd
    by (auto simp: login_def reply_def is_locked_def Let_def)
qed

theorem login_locked_after_five_failures_witness:
  "http_status (login (\<lambda>_ _. True) demo_sign ''s3cret'' False demo_users
      (snd (login_run demo_compare demo_sign ''s3cret'' False demo_users Map.empty
          (map wrong_attempt [1000, 2000, 3000, 4000, 5000])))
      good_attempt 905079 905100) = 423
   \<and> http_status (login demo_compare demo_sign ''s3cret'' False demo_users
      (snd (login_run demo_compare demo_sign ''s3cret'' False demo_users Map.empty
          (map wrong_attempt [1000, 2000, 3000, 4000, 5000])))
      good_attempt 905080 905100) = 200"
proof -
  let ?reqs = "map wrong_attempt [1000, 2000, 3000, 4000, 5000]"
  let ?la5 = "Map.empty(''ana@example.com'' \<mapsto>
                \<lparr>count = Suc (Suc (Suc (Suc (Suc 0)))), lockedUntil = Some 905080\<rparr>)"
  have user: "findOne_email demo_users ''ana@example.com'' = Some (hd demo_users)"
    by (simp add: findOne_email_def demo_users_def)
  have run: "login_run demo_compare demo_sign ''s3cret'' False demo_users Map.empty ?reqs
             = ([401, 401, 401, 401, 401], ?la5)"
    by (simp add: wrong_attempt_def login_def reply_def findOne_email_def demo_users_def
        demo_compare_def demo_hash_def is_locked_def Let_def)
  have five: "length ?reqs = 5" by simp
  have same: "\<forall>r \<in> set ?reqs. body_email (fst r) = Some ''ana@example.com''"
    by (simp add: wrong_attempt_def)
  have failed: "\<forall>s \<in> set [401, 401, 401, 401, 401::nat]. s = 401" by simp
  have clock: "0 \<le> snd (snd (last ?reqs))" by (simp add: wrong_attempt_def)
  have last: "snd (snd (last ?reqs)) = 5080" by (simp add: wrong_attempt_def)
  have pw: "demo_compare ''Clave#Segura1'' (password (hd demo_users))"
    by (simp add: demo_compare_def demo_hash_def demo_users_def)
  note inst = login_locked_after_five_failures[OF user run five same failed clock, unfolded last]
  have a: "http_status (login (\<lambda>_ _. True) demo_sign ''s3cret'' False demo_users ?la5
      good_attempt 905079 905100) = 423"
    using inst[THEN conjunct1, rule_format, of "''Clave#Segura1''" 905079 "\<lambda>_ _. True" 905100]
    by (simp add: Let_def good_attempt_def)
  have b: "http_status (login demo_compare demo_sign ''s3cret'' False demo_users ?la5
      good_attempt 905080 905100) = 200"
    using inst[THEN conjunct2, rule_format, of "''Clave#Segura1''" 905080 905100] pw
    by (simp add: Let_def good_attempt_def)
  show ?thesis using a b run by simp
qed

text \<open>
  Claim C4, as the handler implements it. A request with a missing field, or for an
  email with no user, leaves the table as it was (no entry is created, although the
  attempt failed). A well-formed request for a registered email always leaves an entry
  for that email, whether it is answered 200, 401 or 423, and touches no other email's
  entry: on 423 the entry is the one the handler started from; on 200 its count is set
  to 0 and \<open>lockedUntil\<close> is kept; on 401 its count goes up by one and, when the new count
  is at least 5, \<open>lockedUntil\<close> becomes the failure's clock reading plus 15 minutes, the
  count being kept.
\<close>

theorem login_throttle_entry_transitions:
  fixes sg :: "jwt_payload \<Rightarrow> string \<Rightarrow> int \<Rightarrow> 'tok"
  shows "(let out = login cmp sg secret pr users la body t t' in
          (\<not> truthy (body_email body) \<or> \<not> truthy (body_password body)
              \<or> (\<exists>e. body_email body = Some e \<and> findOne_email users e = None)
            \<longrightarrow> attempts_after out = la \<and> http_status out \<in> {400, 401})
        \<and> (\<forall>e u. truthy (body_email body) \<and> truthy (body_password body)
                \<and> body_email body = Some e \<and> findOne_email users e = Some u \<longrightarrow>
              http_status out \<in> {200, 401, 423}
            \<and> attempts_after out e \<noteq> None
            \<and> (\<forall>e'. e' \<noteq> e \<longrightarrow> attempts_after out e' = la e')
            \<and> (http_status out = 423 \<longrightarrow> attempts_after out e = Some (entry_of la e))
            \<and> (http_status out = 200 \<longrightarrow> attempts_after out e = Some ((entry_of la e)\<lparr>count := 0\<rparr>))
            \<and> (http_status out = 401 \<longrightarrow>
                  attempts_after out e = Some
                    \<lparr>count = Suc (count (entry_of la e)),
                     lockedUntil = (if 5 \<le> Suc (count (entry_of la e))
                                    then Some (t' + 15 * 60 * 1000)
                                    else lockedUntil (entry_of la e))\<rparr>)))"
  by (auto simp: login_def reply_def truthy_def entry_of_def Let_def split: option.splits)

theorem login_throttle_entry_transitions_witness:
  "attempts_after (login demo_compare demo_sign ''s3cret'' False demo_users
       (Map.empty(''ana@example.com'' \<mapsto> \<lparr>count = 4, lockedUntil = None\<rparr>))
       (fst (wrong_attempt 1000)) 1000 1080) ''ana@example.com''
     = Some \<lparr>count = 5, lockedUntil = Some 901080\<rparr>"
proof -
  let ?la = "Map.empty(''ana@example.com'' \<mapsto> \<lparr>count = 4, lockedUntil = None\<rparr>)"
  let ?out = "login demo_compare demo_sign ''s3cret'' False demo_users ?la
                (fst (wrong_attempt 1000)) 1000 1080"
  have user: "findOne_email demo_users ''ana@example.com'' = Some (hd demo_users)"
    by (simp add: findOne_email_def demo_users_def)
  have st: "http_status ?out = 401"
    by (simp add: wrong_attempt_def login_def reply_def findOne_email_def demo_users_def
        demo_compare_def demo_hash_def is_locked_def Let_def)
  have wf: "truthy (body_email (fst (wrong_attempt 1000)))"
      "truthy (body_password (fst (wrong_attempt 1000)))"
      "body_email (fst (wrong_attempt 1000)) = Some ''ana@example.com''"
    by (simp_all add: wrong_attempt_def truthy_def)
  have "attempts_after ?out ''ana@example.com'' = Some
          \<lparr>count = Suc (count (entry_of ?la ''ana@example.com'')),
           lockedUntil = (if 5 \<le> Suc (count (entry_of ?la ''ana@example.com''))
                          then Some (1080 + 15 * 60 * 1000)
                          else lockedUntil (entry_of ?la ''ana@example.com''))\<rparr>"
    using login_throttle_entry_transitions
            [of demo_compare demo_sign "''s3cret''" False demo_users ?la
                "fst (wrong_attempt 1000)" 1000 1080]
          user st wf
    by (simp add: Let_def)
  then show ?thesis by (simp add: entry_of_def)
qed

text \<open>
  Claim C4 as stated fails twice. On an empty table a first attempt that succeeds (a
  200, not a failure) already creates the email's entry; and a failed attempt (401) for
  an email with no user creates none.
\<close>

theorem login_entry_not_only_on_failure:
  "http_status (login demo_compare demo_sign ''s3cret'' False demo_users Map.empty
             good_attempt 1000 1080) = 200
   \<and> attempts_after (login demo_compare demo_sign ''s3cret'' False demo_users Map.empty
             good_attempt 1000 1080) ''ana@example.com''
       = Some \<lparr>count = 0, lockedUntil = None\<rparr>
   \<and> http_status (login demo_compare demo_sign ''s3cret'' False demo_users Map.empty
             \<lparr>body_email = Some ''nadie@example.com'', body_password = Some ''x''\<rparr> 1000 1080) = 401
   \<and> attempts_after (login demo_compare demo_sign ''s3cret'' False demo_users Map.empty
             \<lparr>body_email = Some ''nadie@example.com'', body_password = Some ''x''\<rparr> 1000 1080)
         ''nadie@example.com'' = None"
  by (simp add: good_attempt_def login_def reply_def findOne_email_def demo_users_def
      demo_compare_def demo_hash_def is_locked_def Let_def)


section \<open>Session token\<close>

text \<open>
  Claim C7. A login answered 200 sets the cookie \<open>token\<close> (HTTP-only, max-age two hours)
  holding a token signed over the user's id and email with a lifetime of 7200 seconds.
  On any request other than a preflight, the auth middleware given that cookie attaches
  exactly that id and email while the token clock is below issue + 7200, answers 401 from
  issue + 7200 on, and answers 401 at any time when the token's signature has been
  replaced by a different one.
\<close>

theorem login_token_round_trip:
  assumes "body_email body = Some e"
    and "findOne_email users e = Some u"
    and "http_status (login cmp (jwt_sign mac issued) secret pr users la body t t') = 200"
    and "m \<noteq> ''OPTIONS''"
  shows "\<exists>ck. cookie_set (login cmp (jwt_sign mac issued) secret pr users la body t t') = Some ck
      \<and> cookie_name ck = ''token'' \<and> httpOnly ck \<and> maxAge ck = 2 * 60 * 60 * 1000
      \<and> (\<forall>clock. clock < issued + 2 * 60 * 60 \<longrightarrow>
            authMiddleware (jwt_verify mac clock) secret
              \<lparr>req_method = m, cookies_token = Some (cookie_token ck)\<rparr>
            = Next (Some \<lparr>claim_userId = user_id u, claim_email = email u,
                          iat = issued, exp = issued + 2 * 60 * 60\<rparr>))
      \<and> (\<forall>clock. issued + 2 * 60 * 60 \<le> clock \<longrightarrow>
            authMiddleware (jwt_verify mac clock) secret
              \<lparr>req_method = m, cookies_token = Some (cookie_token ck)\<rparr>
            = Denied 401 ''Invalid or expired token'')
      \<and> (\<forall>clock forged. forged \<noteq> signature (cookie_token ck) \<longrightarrow>
            authMiddleware (jwt_verify mac clock) secret
              \<lparr>req_method = m,
               cookies_token = Some (SessionToken (claims (cookie_token ck)) forged)\<rparr>
            = Denied 401 ''Invalid or expired token'')"
  using assms
  by (auto simp: login_def reply_def Let_def authMiddleware_def jwt_sign_def jwt_verify_def
      split: option.splits if_splits)

theorem login_token_round_trip_witness:
  "authMiddleware (jwt_verify demo_mac 8199) ''s3cret''
     \<lparr>req_method = ''GET'',
      cookies_token = map_option cookie_token
        (cookie_set (login demo_compare (jwt_sign demo_mac 1000) ''s3cret'' False demo_users
                       Map.empty good_attempt 1000000 1000080))\<rparr>
   = Next (Some \<lparr>claim_userId = ''u1'', claim_email = ''ana@example.com'',
                 iat = 1000, exp = 8200\<rparr>)
   \<and> authMiddleware (jwt_verify demo_mac 8200) ''s3cret''
     \<lparr>req_method = ''GET'',
      cookies_token = map_option cookie_token
        (cookie_set (login demo_compare (jwt_sign demo_mac 1000) ''s3cret'' False demo_users
                       Map.empty good_attempt 1000000 1000080))\<rparr>
   = Denied 401 ''Invalid or expired token''"
proof -
  let ?out = "login demo_compare (jwt_sign demo_mac 1000) ''s3cret'' False demo_users
                Map.empty good_attempt 1000000 1000080"
  have em: "body_email good_attempt = Some ''ana@example.com''"
    by (simp add: good_attempt_def)
  have user: "findOne_email demo_users ''ana@example.com'' = Some (hd demo_users)"
    by (simp add: findOne_email_def demo_users_def)
  have st: "http_status ?out = 200"
    by (simp add: good_attempt_def login_def reply_def findOne_email_def demo_users_def
        demo_compare_def demo_hash_def is_locked_def Let_def)
  have m: "''GET'' \<noteq> ''OPTIONS''" by simp
  from login_token_round_trip[OF em user st m] obtain ck where
    ck: "cookie_set ?out = Some ck"
    and ok: "\<forall>clock. clock < 1000 + 2 * 60 * 60 \<longrightarrow>
              authMiddleware (jwt_verify demo_mac clock) ''s3cret''
                \<lparr>req_method = ''GET'', cookies_token = Some (cookie_token ck)\<rparr>
              = Next (Some \<lparr>claim_userId = user_id (hd demo_users),
                            claim_email = email (hd demo_users),
                            iat = 1000, exp = 1000 + 2 * 60 * 60\<rparr>)"
    and late: "\<forall>clock. 1000 + 2 * 60 * 60 \<le> clock \<longrightarrow>
              authMiddleware (jwt_verify demo_mac clock) ''s3cret''
                \<lparr>req_method = ''GET'', cookies_token = Some (cookie_token ck)\<rparr>
              = Denied 401 ''Invalid or expired token''"
    by blast
  show ?thesis
    using ck ok[rule_format, of 8199] late[rule_format, of 8200]
    by (simp add: demo_users_def)
qed


section \<open>Password policy\<close>

lemma lookahead_list_ex: "lookahead X s \<Longrightarrow> list_ex X s"
  by (induction s) auto

text \<open>A password that fails the complexity policy fails the pattern of \<open>signup\<close>.\<close>

lemma passwordRegex_test_policy: "passwordRegex_test s \<Longrightarrow> complexity_policy s"
  by (auto simp: complexity_policy_def passwordRegex_test_def dots_to_end_def
      dest: lookahead_list_ex)

text \<open>
  \<open>signup\<close> enforces the policy: whatever the other fields, a password that fails it is
  answered 400 with the users collection untouched, and neither \<open>bcrypt.hash\<close> nor
  \<open>save\<close> has a say in the outcome.
\<close>

lemma signup_rejects_weak_password:
  assumes "body_password body = Some pw" and "\<not> complexity_policy pw"
  shows "res_status (signup h save new_id users body) = 400
       \<and> store_after (signup h save new_id users body) = users
       \<and> signup h save new_id users body = signup h' save' new_id' users body"
proof -
  have "\<not> passwordRegex_test pw"
    using assms(2) passwordRegex_test_policy by blast
  then show ?thesis
    using assms(1) by (auto simp: signup_def respond_def split: option.splits)
qed

text \<open>
  \<open>resetPassword\<close> never looks at the new password: with a valid token, the outcome is
  that of saving the user with the hash of whatever was sent.
\<close>

lemma resetPassword_saves_any_password:
  assumes "findOne_reset users token now = Some u"
  shows "resetPassword h save users token (Some pw) now =
           (case save (u\<lparr>password := h pw, resetPasswordToken := None,
                          resetPasswordExpires := None\<rparr>) users of
              Inl error \<Rightarrow> errorHandler error users
            | Inr saved \<Rightarrow> respond 200 ''Contrasena actualizada correctamente'' saved)"
  using assms by (simp add: resetPassword_def Let_def)

text \<open>
  Claim C2 fails on \<open>resetPassword\<close>. The password \<open>abc\<close> fails the complexity policy
  (and the pattern of \<open>signup\<close>), yet a reset with a valid token is answered 200 and stores
  its hash: the only validation on that path is the schema's, and it sees the hash.
\<close>

theorem resetPassword_stores_weak_password:
  "\<not> complexity_policy ''abc'' \<and> \<not> passwordRegex_test ''abc''
   \<and> userSchema_password (demo_hash ''abc'') = []
   \<and> res_status (resetPassword demo_hash save_password_change demo_users ''r3s3t''
                    (Some ''abc'') 5000) = 200
   \<and> map password (store_after (resetPassword demo_hash save_password_change demo_users
                    ''r3s3t'' (Some ''abc'') 5000)) = [demo_hash ''abc'']"
proof -
  have weak: "\<not> complexity_policy ''abc''"
    by (simp add: complexity_policy_def)
  have schema: "userSchema_password (demo_hash ''abc'') = []"
    by (simp add: userSchema_password_def demo_hash_def lower_az_def upper_AZ_def
        nonword_or_underscore_def word_char_def digit_def char_code_def line_terminator_def
        dots_to_end_def)
  have found: "findOne_reset demo_users ''r3s3t'' 5000 = Some (hd demo_users)"
    by (simp add: findOne_reset_def demo_users_def)
  have "resetPassword demo_hash save_password_change demo_users ''r3s3t'' (Some ''abc'') 5000
        = respond 200 ''Contrasena actualizada correctamente''
            [(hd demo_users)\<lparr>password := demo_hash ''abc'', resetPasswordToken := None,
                              resetPasswordExpires := None\<rparr>]"
    using schema
    by (simp add: resetPassword_saves_any_password[OF found] save_password_change_def)
       (simp add: demo_users_def)
  then show ?thesis
    using weak schema passwordRegex_test_policy[of "''abc''"]
    by (auto simp: respond_def)
qed


section \<open>Task controller\<close>

lemma errorHandler_frame:
  "res_doc (errorHandler err st) = None \<and> store_after (errorHandler err st) = st"
  by (simp add: errorHandler_def respond_def)

lemma errorHandler_http_error:
  "0 < n \<Longrightarrow> errorHandler (http_error n msg) st = respond n (if msg = [] then
      ''Error interno en el servidor, por favor intente nuevamente mas tarde'' else msg) st"
  by (simp add: errorHandler_def http_error_def)

lemma errorHandler_not_found:
  "res_status (errorHandler not_found st) = 404"
  by (simp add: errorHandler_def http_error_def not_found_def respond_def)

lemma errorHandler_past_due:
  "res_status (errorHandler past_due st) = 400"
  by (simp add: errorHandler_def http_error_def past_due_def respond_def)

text \<open>When no document with the id belongs to the user, the scoped filter selects none.\<close>

lemma find_owned_foreign:
  "\<forall>t \<in> set tasks. task_id t = tid \<longrightarrow> userId t \<noteq> uid \<Longrightarrow> find (owned tid uid) tasks = None"
  by (induction tasks) (auto simp: owned_def)

lemma replace_first_foreign:
  "\<forall>t \<in> set tasks. task_id t = tid \<longrightarrow> userId t \<noteq> uid \<Longrightarrow>
   replace_first (owned tid uid) f tasks = tasks"
  by (induction tasks) (auto simp: owned_def)

text \<open>
  Claim C3, as the handlers implement it. Let no task with the id \<open>tid\<close> belong to the
  authenticated user (the task with that id has another owner). Then \<open>getTaskById\<close> and
  \<open>deleteTask\<close> answer 404, and \<open>updateTask\<close> answers 404 whenever its own due-date check
  and Mongoose's casting of the update let the query run; in every case, \<open>updateTask\<close>
  included, no task is sent back and the collection is left as it was.
\<close>

theorem foreign_task_not_found:
  assumes foreign: "\<forall>t \<in> set tasks. task_id t = tid \<longrightarrow> userId t \<noteq> uid"
  shows "res_status (getTaskById uid tasks tid) = 404
       \<and> res_doc (getTaskById uid tasks tid) = None
       \<and> store_after (getTaskById uid tasks tid) = tasks
       \<and> res_status (deleteTask uid tasks tid) = 404
       \<and> res_doc (deleteTask uid tasks tid) = None
       \<and> store_after (deleteTask uid tasks tid) = tasks
       \<and> res_doc (updateTask parseDate cast uid tasks tid body now) = None
       \<and> store_after (updateTask parseDate cast uid tasks tid body now) = tasks
       \<and> (\<not> date_lt (parseDate (template (body_date body) @ ''T'' @ template (body_time body))) now
            \<and> (\<exists>change. cast \<lparr>body_title = body_title body, body_detail = body_detail body,
                   body_date = body_date body, body_time = body_time body,
                   body_status = body_status body,
                   dueDate_value = parseDate (template (body_date body) @ ''T''
                                               @ template (body_time body))\<rparr> = Inr change)
          \<longrightarrow> res_status (updateTask parseDate cast uid tasks tid body now) = 404)"
proof -
  note none = find_owned_foreign[OF foreign]
  note same = replace_first_foreign[OF foreign]
  have get: "getTaskById uid tasks tid = errorHandler not_found tasks"
    by (simp add: getTaskById_def none)
  have del: "deleteTask uid tasks tid = errorHandler not_found tasks"
    by (simp add: deleteTask_def none)
  have upd_frame: "res_doc (updateTask parseDate cast uid tasks tid body now) = None
       \<and> store_after (updateTask parseDate cast uid tasks tid body now) = tasks"
    by (auto simp: updateTask_def findOneAndUpdate_def Let_def none same errorHandler_frame
        split: sum.splits)
  have upd_status: "res_status (updateTask parseDate cast uid tasks tid body now) = 404"
    if "\<not> date_lt (parseDate (template (body_date body) @ ''T'' @ template (body_time body))) now"
      and "cast \<lparr>body_title = body_title body, body_detail = body_detail body,
                   body_date = body_date body, body_time = body_time body,
                   body_status = body_status body,
                   dueDate_value = parseDate (template (body_date body) @ ''T''
                                               @ template (body_time body))\<rparr> = Inr change"
    for change
    using that
    by (simp add: updateTask_def findOneAndUpdate_def Let_def none same errorHandler_not_found)
  show ?thesis
    using get del upd_frame upd_status
    by (auto simp: errorHandler_frame errorHandler_not_found)
qed

theorem foreign_task_not_found_witness:
  "res_status (getTaskById ''u1'' [demo_task ''t1'' ''u2'' ''Ajena'' (Some ''todo'')] ''t1'') = 404
   \<and> store_after (deleteTask ''u1'' [demo_task ''t1'' ''u2'' ''Ajena'' (Some ''todo'')] ''t1'')
       = [demo_task ''t1'' ''u2'' ''Ajena'' (Some ''todo'')]
   \<and> res_status (updateTask demo_parseDate (demo_cast path_name) ''u1''
         [demo_task ''t1'' ''u2'' ''Ajena'' (Some ''todo'')] ''t1''
         (demo_body ''2030-01-01'' (Some ''done'')) demo_now) = 404
   \<and> store_after (updateTask demo_parseDate (demo_cast path_name) ''u1''
         [demo_task ''t1'' ''u2'' ''Ajena'' (Some ''todo'')] ''t1''
         (demo_body ''2030-01-01'' (Some ''done'')) demo_now)
       = [demo_task ''t1'' ''u2'' ''Ajena'' (Some ''todo'')]"
proof -
  let ?tasks = "[demo_task ''t1'' ''u2'' ''Ajena'' (Some ''todo'')]"
  let ?body = "demo_body ''2030-01-01'' (Some ''done'')"
  have foreign: "\<forall>t \<in> set ?tasks. task_id t = ''t1'' \<longrightarrow> userId t \<noteq> ''u1''"
    by (simp add: demo_task_def)
  have not_past: "\<not> date_lt (demo_parseDate (template (body_date ?body) @ ''T''
                                    @ template (body_time ?body))) demo_now"
    by (simp add: demo_body_def template_def demo_parseDate_def date_lt_def demo_now_def)
  have cast: "\<exists>change. demo_cast path_name \<lparr>body_title = body_title ?body, body_detail = body_detail ?body,
                   body_date = body_date ?body, body_time = body_time ?body,
                   body_status = body_status ?body,
                   dueDate_value = demo_parseDate (template (body_date ?body) @ ''T''
                                               @ template (body_time ?body))\<rparr> = Inr change"
    by (simp add: demo_cast_def update_failures_def status_enum_def trim_def js_space_def
        char_code_def demo_body_def template_def demo_parseDate_def)
  show ?thesis
    using foreign_task_not_found[OF foreign, where parseDate = demo_parseDate and body = ?body
        and now = demo_now and cast = "demo_cast path_name"]
      not_past cast
    by simp
qed

text \<open>
  Claim C3 as stated fails for \<open>updateTask\<close>: the due-date check comes before the query,
  so an update of another user's task with a due date in the past is answered 400, not
  404.
\<close>

theorem foreign_update_past_due_is_400:
  "userId (demo_task ''t1'' ''u2'' ''Ajena'' (Some ''todo'')) \<noteq> ''u1''
   \<and> res_status (updateTask demo_parseDate (demo_cast path_name) ''u1''
         [demo_task ''t1'' ''u2'' ''Ajena'' (Some ''todo'')] ''t1''
         (demo_body ''2020-01-01'' (Some ''done'')) demo_now) = 400"
  by (simp add: demo_task_def updateTask_def demo_body_def template_def demo_parseDate_def
      date_lt_def demo_now_def errorHandler_past_due)

text \<open>
  Claim C5, as the handlers implement it. Let the due instant built from \<open>date\<close> and
  \<open>time\<close> be a valid date \<open>d\<close>. When \<open>d\<close> is strictly before now, \<open>createTask\<close> answers
  400 whatever the other fields are (with the past-due error when title, date, time and
  status are all present), stores nothing and sends no task, and \<open>updateTask\<close> answers
  400 with the past-due error and changes nothing. When \<open>d\<close> is now or later, by however
  little, the check lets the request through: a creation with title, date, time and
  status present is answered as the store's save decides (201 with the saved document
  when it accepts), and an update is answered as the store's \<open>findOneAndUpdate\<close> decides
  (200 with the changed document for a task the user owns).
\<close>

theorem due_instant_check:
  assumes due: "parseDate (template (body_date body) @ ''T'' @ template (body_time body)) = Some d"
  shows "(d < now \<longrightarrow>
            res_status (createTask parseDate save uid tasks body now) = 400
          \<and> res_doc (createTask parseDate save uid tasks body now) = None
          \<and> store_after (createTask parseDate save uid tasks body now) = tasks
          \<and> (truthy (body_title body) \<and> truthy (body_date body) \<and> truthy (body_time body)
               \<and> truthy (body_status body)
              \<longrightarrow> createTask parseDate save uid tasks body now = errorHandler past_due tasks)
          \<and> updateTask parseDate cast uid tasks tid body now = errorHandler past_due tasks
          \<and> res_status (updateTask parseDate cast uid tasks tid body now) = 400)
       \<and> (now \<le> d \<longrightarrow>
            (truthy (body_title body) \<and> truthy (body_date body) \<and> truthy (body_time body)
               \<and> truthy (body_status body)
              \<longrightarrow> createTask parseDate save uid tasks body now =
                    (case save \<lparr>body_title = body_title body, body_detail = body_detail body,
                                body_date = body_date body, body_time = body_time body,
                                body_status = body_status body, dueDate_value = Some d,
                                draft_userId = uid\<rparr> tasks of
                       Inl error \<Rightarrow> errorHandler error tasks
                     | Inr (newTask, saved) \<Rightarrow>
                         (respond 201 ''Tarea creada con exito'' saved)\<lparr>res_doc := Some newTask\<rparr>))
          \<and> updateTask parseDate cast uid tasks tid body now =
               (case findOneAndUpdate cast tid uid
                       \<lparr>body_title = body_title body, body_detail = body_detail body,
                        body_date = body_date body, body_time = body_time body,
                        body_status = body_status body, dueDate_value = Some d\<rparr> tasks of
                  Inl error \<Rightarrow> errorHandler error tasks
                | Inr (None, after) \<Rightarrow> errorHandler not_found after
                | Inr (Some task, after) \<Rightarrow>
                    (respond 200 ''Tarea actualizada'' after)\<lparr>res_doc := Some task\<rparr>)
          \<and> (\<forall>newTask saved.
               truthy (body_title body) \<and> truthy (body_date body) \<and> truthy (body_time body)
               \<and> truthy (body_status body)
               \<and> save \<lparr>body_title = body_title body, body_detail = body_detail body,
                        body_date = body_date body, body_time = body_time body,
                        body_status = body_status body, dueDate_value = Some d,
                        draft_userId = uid\<rparr> tasks = Inr (newTask, saved)
               \<longrightarrow> res_status (createTask parseDate save uid tasks body now) = 201
                 \<and> res_doc (createTask parseDate save uid tasks body now) = Some newTask
                 \<and> store_after (createTask parseDate save uid tasks body now) = saved)
          \<and> (\<forall>change t.
               cast \<lparr>body_title = body_title body, body_detail = body_detail body,
                      body_date = body_date body, body_time = body_time body,
                      body_status = body_status body, dueDate_value = Some d\<rparr> = Inr change
               \<and> find (owned tid uid) tasks = Some t
               \<longrightarrow> res_status (updateTask parseDate cast uid tasks tid body now) = 200
                 \<and> res_doc (updateTask parseDate cast uid tasks tid body now) = Some (change t)))"
proof -
  have past_create: "res_status (createTask parseDate save uid tasks body now) = 400
          \<and> res_doc (createTask parseDate save uid tasks body now) = None
          \<and> store_after (createTask parseDate save uid tasks body now) = tasks" if "d < now"
    using that due
    by (simp add: createTask_def Let_def date_lt_def errorHandler_frame errorHandler_past_due
        errorHandler_http_error respond_def)
  have past_create_error: "createTask parseDate save uid tasks body now = errorHandler past_due tasks"
    if "d < now" "truthy (body_title body)" "truthy (body_date body)" "truthy (body_time body)"
      "truthy (body_status body)"
    using that due by (simp add: createTask_def Let_def date_lt_def)
  have past_update: "updateTask parseDate cast uid tasks tid body now = errorHandler past_due tasks"
    if "d < now"
    using that due by (simp add: updateTask_def Let_def date_lt_def)
  have pass_create: "createTask parseDate save uid tasks body now =
                    (case save \<lparr>body_title = body_title body, body_detail = body_detail body,
                                body_date = body_date body, body_time = body_time body,
                                body_status = body_status body, dueDate_value = Some d,
                                draft_userId = uid\<rparr> tasks of
                       Inl error \<Rightarrow> errorHandler error tasks
                     | Inr (newTask, saved) \<Rightarrow>
                         (respond 201 ''Tarea creada con exito'' saved)\<lparr>res_doc := Some newTask\<rparr>)"
    if "now \<le> d" "truthy (body_title body)" "truthy (body_date body)" "truthy (body_time body)"
      "truthy (body_status body)"
    using that due by (simp add: createTask_def Let_def date_lt_def)
  have pass_update: "updateTask parseDate cast uid tasks tid body now =
               (case findOneAndUpdate cast tid uid
                       \<lparr>body_title = body_title body, body_detail = body_detail body,
                        body_date = body_date body, body_time = body_time body,
                        body_status = body_status body, dueDate_value = Some d\<rparr> tasks of
                  Inl error \<Rightarrow> errorHandler error tasks
                | Inr (None, after) \<Rightarrow> errorHandler not_found after
                | Inr (Some task, after) \<Rightarrow>
                    (respond 200 ''Tarea actualizada'' after)\<lparr>res_doc := Some task\<rparr>)"
    if "now \<le> d"
    using that due by (simp add: updateTask_def Let_def date_lt_def)
  have created: "res_status (createTask parseDate save uid tasks body now) = 201
                 \<and> res_doc (createTask parseDate save uid tasks body now) = Some newTask
                 \<and> store_after (createTask parseDate save uid tasks body now) = saved"
    if "now \<le> d" "truthy (body_title body)" "truthy (body_date body)" "truthy (body_time body)"
      "truthy (body_status body)"
      "save \<lparr>body_title = body_title body, body_detail = body_detail body,
                        body_date = body_date body, body_time = body_time body,
                        body_status = body_status body, dueDate_value = Some d,
                        draft_userId = uid\<rparr> tasks = Inr (newTask, saved)"
    for newTask saved
    using pass_create[OF that(1-5)] that(6) by (simp add: respond_def)
  have updated: "res_status (updateTask parseDate cast uid tasks tid body now) = 200
                 \<and> res_doc (updateTask parseDate cast uid tasks tid body now) = Some (change t)"
    if "now \<le> d"
      "cast \<lparr>body_title = body_title body, body_detail = body_detail body,
                      body_date = body_date body, body_time = body_time body,
                      body_status = body_status body, dueDate_value = Some d\<rparr> = Inr change"
      "find (owned tid uid) tasks = Some t"
    for change t
    using pass_update[OF that(1)] that(2,3) by (simp add: findOneAndUpdate_def respond_def)
  have past: "d < now \<longrightarrow>
            res_status (createTask parseDate save uid tasks body now) = 400
          \<and> res_doc (createTask parseDate save uid tasks body now) = None
          \<and> store_after (createTask parseDate save uid tasks body now) = tasks
          \<and> (truthy (body_title body) \<and> truthy (body_date body) \<and> truthy (body_time body)
               \<and> truthy (body_status body)
              \<longrightarrow> createTask parseDate save uid tasks body now = errorHandler past_due tasks)
          \<and> updateTask parseDate cast uid tasks tid body now = errorHandler past_due tasks
          \<and> res_status (updateTask parseDate cast uid tasks tid body now) = 400"
    using past_create past_create_error past_update by (simp add: errorHandler_past_due)
  show ?thesis
    apply (rule conjI)
     apply (rule past)
    apply (intro impI conjI allI)
    using pass_create apply blast
    using pass_update apply blast
    using created apply blast
    using created apply blast
    using created apply blast
    using updated apply blast
    using updated apply blast
    done
qed

theorem due_instant_check_witness:
  "res_status (createTask demo_parseDate (demo_save path_name ''t9'' 1893492000001) ''u1'' []
       (demo_body ''2030-01-01'' (Some ''todo'')) 1893492000001) = 400
   \<and> res_status (createTask demo_parseDate (demo_save path_name ''t9'' 1893492000000) ''u1'' []
       (demo_body ''2030-01-01'' (Some ''todo'')) 1893492000000) = 201
   \<and> res_status (createTask demo_parseDate (demo_save path_name ''t9'' 1893491999000) ''u1'' []
       (demo_body ''2030-01-01'' (Some ''todo'')) 1893491999000) = 201
   \<and> res_status (updateTask demo_parseDate (demo_cast path_name) ''u1''
       [demo_task ''t1'' ''u1'' ''Mia'' (Some ''todo'')] ''t1''
       (demo_body ''2030-01-01'' (Some ''done'')) 1893492000001) = 400
   \<and> res_status (updateTask demo_parseDate (demo_cast path_name) ''u1''
       [demo_task ''t1'' ''u1'' ''Mia'' (Some ''todo'')] ''t1''
       (demo_body ''2030-01-01'' (Some ''done'')) 1893492000000) = 200"
proof -
  let ?body = "demo_body ''2030-01-01'' (Some ''todo'')"
  let ?body' = "demo_body ''2030-01-01'' (Some ''done'')"
  let ?tasks = "[demo_task ''t1'' ''u1'' ''Mia'' (Some ''todo'')]"
  have due: "demo_parseDate (template (body_date ?body) @ ''T'' @ template (body_time ?body))
             = Some 1893492000000"
    by (simp add: demo_body_def template_def demo_parseDate_def)
  have due': "demo_parseDate (template (body_date ?body') @ ''T'' @ template (body_time ?body'))
             = Some 1893492000000"
    by (simp add: demo_body_def template_def demo_parseDate_def)
  have fields: "truthy (body_title ?body)" "truthy (body_date ?body)" "truthy (body_time ?body)"
      "truthy (body_status ?body)"
    by (simp_all add: demo_body_def truthy_def)
  have saved: "\<exists>newTask saved. demo_save path_name ''t9'' now
          \<lparr>body_title = body_title ?body, body_detail = body_detail ?body,
           body_date = body_date ?body, body_time = body_time ?body,
           body_status = body_status ?body, dueDate_value = Some 1893492000000,
           draft_userId = ''u1''\<rparr> [] = Inr (newTask, saved)" for now
    by (simp add: demo_save_def draft_failures_def status_enum_def trim_def js_space_def
        char_code_def truthy_def demo_body_def Let_def)
  have cast: "\<exists>change. demo_cast path_name
          \<lparr>body_title = body_title ?body', body_detail = body_detail ?body',
           body_date = body_date ?body', body_time = body_time ?body',
           body_status = body_status ?body', dueDate_value = Some 1893492000000\<rparr> = Inr change"
    by (simp add: demo_cast_def update_failures_def status_enum_def trim_def js_space_def
        char_code_def demo_body_def)
  have mine: "find (owned ''t1'' ''u1'') ?tasks = Some (demo_task ''t1'' ''u1'' ''Mia'' (Some ''todo''))"
    by (simp add: owned_def demo_task_def)
  have a: "res_status (createTask demo_parseDate (demo_save path_name ''t9'' 1893492000001) ''u1'' []
       ?body 1893492000001) = 400"
    using due_instant_check[where parseDate = demo_parseDate and body = ?body
        and d = 1893492000000 and now = 1893492000001
        and save = "demo_save path_name ''t9'' 1893492000001" and uid = "''u1''"
        and tasks = "[]"] due
    by simp
  have b0: "res_status (createTask demo_parseDate (demo_save path_name ''t9'' 1893492000000) ''u1'' []
       ?body 1893492000000) = 201"
    using due_instant_check[where parseDate = demo_parseDate and body = ?body
        and d = 1893492000000 and now = 1893492000000
        and save = "demo_save path_name ''t9'' 1893492000000" and uid = "''u1''" and tasks = "[]"]
      due fields saved[of 1893492000000]
    by (auto simp: respond_def)
  have b: "res_status (createTask demo_parseDate (demo_save path_name ''t9'' 1893491999000) ''u1'' []
       ?body 1893491999000) = 201"
    using due_instant_check[where parseDate = demo_parseDate and body = ?body
        and d = 1893492000000 and now = 1893491999000
        and save = "demo_save path_name ''t9'' 1893491999000" and uid = "''u1''" and tasks = "[]"]
      due fields saved[of 1893491999000]
    by (auto simp: respond_def)
  have c: "res_status (updateTask demo_parseDate (demo_cast path_name) ''u1'' ?tasks ''t1'' ?body'
       1893492000001) = 400"
    using due_instant_check[where parseDate = demo_parseDate and body = ?body'
        and d = 1893492000000 and now = 1893492000001 and cast = "demo_cast path_name"
        and tid = "''t1''" and uid = "''u1''" and tasks = ?tasks] due'
    by (simp add: errorHandler_past_due)
  have d: "res_status (updateTask demo_parseDate (demo_cast path_name) ''u1'' ?tasks ''t1'' ?body'
       1893492000000) = 200"
    using due_instant_check[where parseDate = demo_parseDate and body = ?body'
        and d = 1893492000000 and now = 1893492000000 and cast = "demo_cast path_name"
        and tid = "''t1''" and uid = "''u1''" and tasks = ?tasks]
      due' cast mine
    by (auto simp: respond_def findOneAndUpdate_def)
  show ?thesis using a b0 b c d by simp
qed

text \<open>
  Claim C5 as stated fails at the boundary: the check is \<open>dueDate < new Date()\<close>, so a
  due instant equal to the current instant, which is not strictly in the future, is
  let through by both handlers: the creation is answered 201 and the update 200.
\<close>

theorem due_instant_equal_to_now_is_accepted:
  "demo_parseDate (template (body_date (demo_body ''2030-01-01'' (Some ''todo''))) @ ''T''
                    @ template (body_time (demo_body ''2030-01-01'' (Some ''todo''))))
     = Some 1893492000000
   \<and> res_status (createTask demo_parseDate (demo_save path_name ''t9'' 1893492000000) ''u1'' []
       (demo_body ''2030-01-01'' (Some ''todo'')) 1893492000000) = 201
   \<and> map_option dueDate (res_doc (createTask demo_parseDate
       (demo_save path_name ''t9'' 1893492000000) ''u1'' []
       (demo_body ''2030-01-01'' (Some ''todo'')) 1893492000000)) = Some 1893492000000
   \<and> res_status (updateTask demo_parseDate (demo_cast path_name) ''u1''
       [demo_task ''t1'' ''u1'' ''Mia'' (Some ''todo'')] ''t1''
       (demo_body ''2030-01-01'' (Some ''done'')) 1893492000000) = 200"
  by (simp add: createTask_def updateTask_def findOneAndUpdate_def demo_body_def template_def
      demo_parseDate_def date_lt_def truthy_def demo_save_def draft_failures_def demo_cast_def
      update_failures_def status_enum_def trim_def js_space_def char_code_def demo_task_def
      owned_def respond_def Let_def)

text \<open>With the schema's save, a stored document has the status its draft supplied.\<close>

lemma demo_save_keeps_status:
  "demo_save wording new_id now d tasks = Inr (doc, saved) \<Longrightarrow> body_status d = Some s \<Longrightarrow>
   status doc = Some s \<and> s \<in> set status_enum \<and> saved = tasks @ [doc]"
  by (auto simp: demo_save_def draft_failures_def Let_def
      split: list.splits option.splits if_splits)

text \<open>
  Claim C6, as the handler implements it. \<open>createTask\<close> requires \<open>status\<close>: a request
  without it (or with an empty one) is answered 400 with the missing-fields message
  whatever the other fields are, stores nothing and sends no task, and the store is not
  consulted. A request with title, date, time and status present and a due instant that
  is not in the past is handed to the store with the status it supplied, and the
  store's save decides the answer: 201 with the saved document when it accepts, the
  store's error otherwise.
\<close>

theorem createTask_requires_status:
  "(\<not> truthy (body_status body) \<longrightarrow>
       createTask parseDate save uid tasks body now
         = respond 400 ''Los campos title, dueDate y status son obligatorios'' tasks)
   \<and> (\<forall>s. truthy (body_title body) \<and> truthy (body_date body) \<and> truthy (body_time body)
         \<and> body_status body = Some s \<and> s \<noteq> []
         \<and> \<not> date_lt (parseDate (template (body_date body) @ ''T'' @ template (body_time body))) now
         \<longrightarrow> createTask parseDate save uid tasks body now
               = (case save \<lparr>body_title = body_title body, body_detail = body_detail body,
                             body_date = body_date body, body_time = body_time body,
                             body_status = Some s,
                             dueDate_value = parseDate (template (body_date body) @ ''T''
                                                         @ template (body_time body)),
                             draft_userId = uid\<rparr> tasks of
                    Inl error \<Rightarrow> errorHandler error tasks
                  | Inr (newTask, saved) \<Rightarrow>
                      (respond 201 ''Tarea creada con exito'' saved)\<lparr>res_doc := Some newTask\<rparr>))"
  by (auto simp: createTask_def Let_def truthy_def errorHandler_http_error)

theorem createTask_requires_status_witness:
  "res_status (createTask demo_parseDate (demo_save path_name ''t9'' demo_now) ''u1'' []
       (demo_body ''2030-01-01'' (Some [])) demo_now) = 400
   \<and> res_status (createTask demo_parseDate (demo_save path_name ''t9'' demo_now) ''u1'' []
       (demo_body ''2030-01-01'' (Some ''in-progress'')) demo_now) = 201
   \<and> map_option status (res_doc (createTask demo_parseDate (demo_save path_name ''t9'' demo_now)
       ''u1'' [] (demo_body ''2030-01-01'' (Some ''in-progress'')) demo_now))
       = Some (Some ''in-progress'')
   \<and> res_status (createTask demo_parseDate (demo_save path_name ''t9'' demo_now) ''u1'' []
       (demo_body ''2030-01-01'' (Some ''foo'')) demo_now) = 400"
proof -
  let ?body = "demo_body ''2030-01-01'' (Some ''in-progress'')"
  let ?foo = "demo_body ''2030-01-01'' (Some ''foo'')"
  let ?doc = "\<lparr>task_id = ''t9'', userId = ''u1'', title = ''Comprar pan'', detail = None,
                date = ''2030-01-01'', time = ''10:00'', dueDate = 1893492000000,
                status = Some ''in-progress'', createdAt = demo_now\<rparr>"
  have a: "\<not> truthy (body_status (demo_body ''2030-01-01'' (Some [])))"
    by (simp add: demo_body_def truthy_def)
  have fields: "truthy (body_title ?body)" "truthy (body_date ?body)" "truthy (body_time ?body)"
      "body_status ?body = Some ''in-progress''"
    by (simp_all add: demo_body_def truthy_def)
  have fields': "truthy (body_title ?foo)" "truthy (body_date ?foo)" "truthy (body_time ?foo)"
      "body_status ?foo = Some ''foo''"
    by (simp_all add: demo_body_def truthy_def)
  have due: "demo_parseDate (template (body_date ?body) @ ''T'' @ template (body_time ?body))
             = Some 1893492000000"
    by (simp add: demo_body_def template_def demo_parseDate_def)
  have due': "demo_parseDate (template (body_date ?foo) @ ''T'' @ template (body_time ?foo))
             = Some 1893492000000"
    by (simp add: demo_body_def template_def demo_parseDate_def)
  have future: "\<not> date_lt (Some 1893492000000) demo_now"
    by (simp add: date_lt_def demo_now_def)
  have saved: "demo_save path_name ''t9'' demo_now
          \<lparr>body_title = body_title ?body, body_detail = body_detail ?body,
           body_date = body_date ?body, body_time = body_time ?body,
           body_status = Some ''in-progress'', dueDate_value = Some 1893492000000,
           draft_userId = ''u1''\<rparr> [] = Inr (?doc, [?doc])"
    by (simp add: demo_save_def draft_failures_def status_enum_def trim_def js_space_def
        char_code_def truthy_def demo_body_def Let_def)
  have refused: "demo_save path_name ''t9'' demo_now
          \<lparr>body_title = body_title ?foo, body_detail = body_detail ?foo,
           body_date = body_date ?foo, body_time = body_time ?foo,
           body_status = Some ''foo'', dueDate_value = Some 1893492000000,
           draft_userId = ''u1''\<rparr> []
        = Inl (mongoose_error ''ValidationError'' (path_name ''Task'') [path_name ''status''])"
    by (simp add: demo_save_def draft_failures_def status_enum_def trim_def js_space_def
        char_code_def truthy_def demo_body_def Let_def)
  note inst = createTask_requires_status[where parseDate = demo_parseDate
      and save = "demo_save path_name ''t9'' demo_now" and uid = "''u1''" and tasks = "[]"
      and now = demo_now]
  have first: "res_status (createTask demo_parseDate (demo_save path_name ''t9'' demo_now) ''u1'' []
       (demo_body ''2030-01-01'' (Some [])) demo_now) = 400"
    using inst[where body = "demo_body ''2030-01-01'' (Some [])", THEN conjunct1] a
    by (simp add: respond_def)
  have second: "createTask demo_parseDate (demo_save path_name ''t9'' demo_now) ''u1'' [] ?body
        demo_now
      = (respond 201 ''Tarea creada con exito'' [?doc])\<lparr>res_doc := Some ?doc\<rparr>"
    using inst[where body = ?body, THEN conjunct2, rule_format, of "''in-progress''"]
      fields due future saved
    by simp
  have third: "createTask demo_parseDate (demo_save path_name ''t9'' demo_now) ''u1'' [] ?foo
        demo_now
      = errorHandler (mongoose_error ''ValidationError'' (path_name ''Task'')
                        [path_name ''status'']) []"
    using inst[where body = ?foo, THEN conjunct2, rule_format, of "''foo''"]
      fields' due' future refused
    by simp
  show ?thesis
    using first second third
    by (simp add: respond_def errorHandler_def mongoose_error_def)
qed

text \<open>
  Claim C6 as stated fails: a creation request with a valid title, date and time and no
  \<open>status\<close> passes the validation middleware's rule for \<open>status\<close> and is then answered
  400 by the handler, with nothing stored, although the store itself would have saved
  it with the default status \<open>todo\<close>.
\<close>

theorem createTask_without_status_is_400:
  "createTaskValidation_status None = []
   \<and> res_status (createTask demo_parseDate (demo_save path_name ''t9'' demo_now) ''u1'' []
        (demo_body ''2030-01-01'' None) demo_now) = 400
   \<and> res_message (createTask demo_parseDate (demo_save path_name ''t9'' demo_now) ''u1'' []
        (demo_body ''2030-01-01'' None) demo_now)
       = ''Los campos title, dueDate y status son obligatorios''
   \<and> store_after (createTask demo_parseDate (demo_save path_name ''t9'' demo_now) ''u1'' []
        (demo_body ''2030-01-01'' None) demo_now) = []
   \<and> map_option (status \<circ> fst) (projr_opt (demo_save path_name ''t9'' demo_now
        \<lparr>body_title = Some ''Comprar pan'', body_detail = None,
         body_date = Some ''2030-01-01'', body_time = Some ''10:00'', body_status = None,
         dueDate_value = Some 1893492000000, draft_userId = ''u1''\<rparr> []))
       = Some (Some ''todo'')"
  by (simp add: createTaskValidation_status_def createTask_def demo_body_def truthy_def
      errorHandler_http_error respond_def demo_save_def draft_failures_def status_enum_def
      trim_def js_space_def char_code_def projr_opt_def Let_def)

text \<open>
  Claim C10. When the due instant built from \<open>date\<close> and \<open>time\<close> is an invalid date,
  the comparison with the current time is false, so \<open>updateTask\<close> does not take its
  past-due 400 branch: its answer is the one that follows the store call
  \<open>findOneAndUpdate\<close>, made with that invalid due date in the update object.
\<close>

theorem updateTask_invalid_date_reaches_store:
  assumes "parseDate (template (body_date body) @ ''T'' @ template (body_time body)) = None"
  shows "\<not> date_lt (parseDate (template (body_date body) @ ''T'' @ template (body_time body))) now
       \<and> updateTask parseDate cast uid tasks tid body now =
           (case findOneAndUpdate cast tid uid
                   \<lparr>body_title = body_title body, body_detail = body_detail body,
                    body_date = body_date body, body_time = body_time body,
                    body_status = body_status body, dueDate_value = None\<rparr> tasks of
              Inl error \<Rightarrow> errorHandler error tasks
            | Inr (None, after) \<Rightarrow> errorHandler not_found after
            | Inr (Some task, after) \<Rightarrow>
                (respond 200 ''Tarea actualizada'' after)\<lparr>res_doc := Some task\<rparr>)"
  using assms by (simp add: updateTask_def Let_def date_lt_def)

theorem updateTask_invalid_date_reaches_store_witness:
  "res_status (updateTask demo_parseDate (demo_cast path_name) ''u1''
       [demo_task ''t1'' ''u1'' ''Mia'' (Some ''todo'')] ''t1''
       \<lparr>body_title = Some ''Mia'', body_detail = None, body_date = None,
        body_time = Some ''10:00'', body_status = Some ''done''\<rparr> demo_now) = 500
   \<and> store_after (updateTask demo_parseDate (demo_cast path_name) ''u1''
       [demo_task ''t1'' ''u1'' ''Mia'' (Some ''todo'')] ''t1''
       \<lparr>body_title = Some ''Mia'', body_detail = None, body_date = None,
        body_time = Some ''10:00'', body_status = Some ''done''\<rparr> demo_now)
     = [demo_task ''t1'' ''u1'' ''Mia'' (Some ''todo'')]"
proof -
  let ?body = "\<lparr>body_title = Some ''Mia'', body_detail = None, body_date = None,
        body_time = Some ''10:00'', body_status = Some ''done''\<rparr>"
  have invalid: "demo_parseDate (template (body_date ?body) @ ''T'' @ template (body_time ?body))
                 = None"
    by (simp add: template_def demo_parseDate_def)
  show ?thesis
    using updateTask_invalid_date_reaches_store[where parseDate = demo_parseDate
        and body = ?body and cast = "demo_cast path_name"] invalid
    by (simp add: findOneAndUpdate_def demo_cast_def mongoose_error_def errorHandler_def
        respond_def)
qed


section \<open>Task statistics\<close>

lemma add_to_group_keys: "fst ` set (add_to_group k gs) = insert k (fst ` set gs)"
  by (induction k gs rule: add_to_group.induct) auto

lemma add_to_group_distinct:
  "distinct (map fst gs) \<Longrightarrow> distinct (map fst (add_to_group k gs))"
proof (induction k gs rule: add_to_group.induct)
  case (1 k)
  then show ?case by simp
next
  case (2 k k' n groups)
  then show ?case using add_to_group_keys[of k groups] by auto
qed

lemma add_to_group_count:
  "count_in (add_to_group k gs) k' = (if k' = k then Suc (count_in gs k) else count_in gs k')"
  by (induction k gs rule: add_to_group.induct) (auto simp: count_in_def)

lemma add_to_group_positive:
  "\<forall>g \<in> set gs. 0 < snd g \<Longrightarrow> \<forall>g \<in> set (add_to_group k gs). 0 < snd g"
  by (induction k gs rule: add_to_group.induct) auto

lemma fold_group:
  "distinct (map fst gs) \<Longrightarrow> \<forall>g \<in> set gs. 0 < snd g \<Longrightarrow>
   distinct (map fst (fold (\<lambda>t. add_to_group (ifNull_status t)) ts gs))
   \<and> (\<forall>g \<in> set (fold (\<lambda>t. add_to_group (ifNull_status t)) ts gs). 0 < snd g)
   \<and> (\<forall>k. count_in (fold (\<lambda>t. add_to_group (ifNull_status t)) ts gs) k
          = count_in gs k + length (filter (\<lambda>t. ifNull_status t = k) ts))"
proof (induction ts arbitrary: gs)
  case Nil
  then show ?case by simp
next
  case (Cons t ts)
  have d: "distinct (map fst (add_to_group (ifNull_status t) gs))"
    using Cons.prems(1) by (rule add_to_group_distinct)
  have p: "\<forall>g \<in> set (add_to_group (ifNull_status t) gs). 0 < snd g"
    using Cons.prems(2) by (rule add_to_group_positive)
  show ?case using Cons.IH[OF d p] by (auto simp: add_to_group_count)
qed

lemma group_stage_facts:
  "distinct (map fst (group_stage ts))
   \<and> (\<forall>k n. (k, n) \<in> set (group_stage ts)
         \<longleftrightarrow> 0 < n \<and> n = length (filter (\<lambda>t. ifNull_status t = k) ts))"
proof -
  let ?gs = "group_stage ts"
  have f: "distinct (map fst ?gs)" "\<forall>g \<in> set ?gs. 0 < snd g"
    "\<forall>k. count_in ?gs k = length (filter (\<lambda>t. ifNull_status t = k) ts)"
    using fold_group[of "[]" ts] by (simp_all add: group_stage_def count_in_def)
  have "(k, n) \<in> set ?gs \<longleftrightarrow> 0 < n \<and> n = length (filter (\<lambda>t. ifNull_status t = k) ts)" for k n
  proof
    assume m: "(k, n) \<in> set ?gs"
    then have "map_of ?gs k = Some n" using f(1) by simp
    then have "count_in ?gs k = n" by (simp add: count_in_def)
    then show "0 < n \<and> n = length (filter (\<lambda>t. ifNull_status t = k) ts)"
      using f(2,3) m by fastforce
  next
    assume a: "0 < n \<and> n = length (filter (\<lambda>t. ifNull_status t = k) ts)"
    then have "count_in ?gs k = n" using f(3) by simp
    then obtain m where "map_of ?gs k = Some m" "m = n"
      using a by (auto simp: count_in_def split: option.splits)
    then show "(k, n) \<in> set ?gs" by (simp add: map_of_SomeD)
  qed
  then show ?thesis using f(1) by blast
qed

lemma insert_by_count_set: "set (insert_by_count g hs) = insert g (set hs)"
  by (induction hs) auto

lemma insert_by_count_sorted:
  "sorted_wrt (\<lambda>a b. snd b \<le> snd a) hs \<Longrightarrow> sorted_wrt (\<lambda>a b. snd b \<le> snd a) (insert_by_count g hs)"
  by (induction hs) (auto simp: insert_by_count_set)

lemma insert_by_count_distinct:
  "distinct (map fst (insert_by_count g hs)) \<longleftrightarrow> fst g \<notin> fst ` set hs \<and> distinct (map fst hs)"
  by (induction hs) (auto simp: insert_by_count_set)

lemma sort_stage_facts:
  "set (sort_stage gs) = set gs
   \<and> sorted_wrt (\<lambda>a b. snd b \<le> snd a) (sort_stage gs)
   \<and> (distinct (map fst (sort_stage gs)) \<longleftrightarrow> distinct (map fst gs))"
  unfolding sort_stage_def
  by (induction gs) (auto simp: insert_by_count_set insert_by_count_sorted insert_by_count_distinct)


text \<open>
  Claim C8. \<open>getTaskStats\<close> answers 200 with \<open>total\<close>, the number of the owner's tasks
  counted on its own, and \<open>byStatus\<close>, which is sorted by count in descending order,
  holds each status once, and holds the pair of a status and a count exactly when that
  count is positive and is the number of the owner's tasks with that status, a task
  without a status counting under the label \<open>sin-estado\<close>. For the statuses
  \<open>[todo, todo, done]\<close> it answers total 3 and \<open>[(todo, 2), (done, 1)]\<close>; for no task,
  total 0 and the empty list.
\<close>

theorem getTaskStats_groups_sorted_total:
  "\<exists>r. getTaskStats uid tasks = (respond 200 [] tasks)\<lparr>res_doc := Some r\<rparr>
     \<and> total r = length (filter (\<lambda>t. userId t = uid) tasks)
     \<and> sorted_wrt (\<lambda>a b. snd b \<le> snd a) (byStatus r)
     \<and> distinct (map fst (byStatus r))
     \<and> (\<forall>k n. (k, n) \<in> set (byStatus r) \<longleftrightarrow>
           0 < n \<and> n = length (filter (\<lambda>t. ifNull_status t = k)
                                  (filter (\<lambda>t. userId t = uid) tasks)))
     \<and> (\<forall>t. status t = None \<longrightarrow> ifNull_status t = ''sin-estado'')
     \<and> (map status (filter (\<lambda>t. userId t = uid) tasks)
            = [Some ''todo'', Some ''todo'', Some ''done'']
          \<longrightarrow> total r = 3 \<and> byStatus r = [(''todo'', 2), (''done'', 1)])
     \<and> (filter (\<lambda>t. userId t = uid) tasks = [] \<longrightarrow> total r = 0 \<and> byStatus r = [])"
proof -
  let ?mine = "filter (\<lambda>t. userId t = uid) tasks"
  let ?r = "\<lparr>total = length ?mine, byStatus = sort_stage (group_stage ?mine)\<rparr>"
  have shape: "getTaskStats uid tasks = (respond 200 [] tasks)\<lparr>res_doc := Some ?r\<rparr>"
    by (simp add: getTaskStats_def Let_def)
  have sorted: "sorted_wrt (\<lambda>a b. snd b \<le> snd a) (byStatus ?r)"
    using sort_stage_facts[of "group_stage ?mine"] by simp
  have dist: "distinct (map fst (byStatus ?r))"
    using sort_stage_facts[of "group_stage ?mine"] group_stage_facts[of ?mine] by simp
  have counts: "\<forall>k n. (k, n) \<in> set (byStatus ?r) \<longleftrightarrow>
           0 < n \<and> n = length (filter (\<lambda>t. ifNull_status t = k) ?mine)"
    using sort_stage_facts[of "group_stage ?mine"] group_stage_facts[of ?mine] by simp
  have sentinel: "\<forall>t. status t = None \<longrightarrow> ifNull_status t = ''sin-estado''"
    by (simp add: ifNull_status_def)
  have example: "total ?r = 3 \<and> byStatus ?r = [(''todo'', 2), (''done'', 1)]"
    if "map status ?mine = [Some ''todo'', Some ''todo'', Some ''done'']"
  proof -
    from that obtain a b c where abc: "?mine = [a, b, c]" "status a = Some ''todo''"
        "status b = Some ''todo''" "status c = Some ''done''"
      by (auto simp: map_eq_Cons_conv)
    have g: "group_stage [a, b, c] = [(''todo'', 2), (''done'', 1)]"
      by (simp add: abc(2-4) group_stage_def ifNull_status_def)
    show ?thesis
      by (simp add: abc(1) g sort_stage_def)
  qed
  have none: "total ?r = 0 \<and> byStatus ?r = []" if "?mine = []"
    using that by (simp add: group_stage_def sort_stage_def)
  show ?thesis
    apply (intro exI[of _ ?r] conjI)
    using shape apply blast
    apply simp
    using sorted apply blast
    using dist apply blast
    using counts apply blast
    using sentinel apply blast
    using example apply blast
    using none apply blast
    done
qed

theorem getTaskStats_groups_sorted_total_witness:
  "res_doc (getTaskStats ''u1''
      [demo_task ''t1'' ''u1'' ''A'' (Some ''todo''), demo_task ''t2'' ''u2'' ''B'' (Some ''done''),
       demo_task ''t3'' ''u1'' ''C'' (Some ''todo''), demo_task ''t4'' ''u1'' ''D'' (Some ''done'')])
   = Some \<lparr>total = 3, byStatus = [(''todo'', 2), (''done'', 1)]\<rparr>"
proof -
  let ?tasks = "[demo_task ''t1'' ''u1'' ''A'' (Some ''todo''), demo_task ''t2'' ''u2'' ''B'' (Some ''done''),
       demo_task ''t3'' ''u1'' ''C'' (Some ''todo''), demo_task ''t4'' ''u1'' ''D'' (Some ''done'')]"
  have st: "map status (filter (\<lambda>t. userId t = ''u1'') ?tasks)
            = [Some ''todo'', Some ''todo'', Some ''done'']"
    by (simp add: demo_task_def)
  from getTaskStats_groups_sorted_total[of "''u1''" ?tasks] obtain r where
    r: "getTaskStats ''u1'' ?tasks = (respond 200 [] ?tasks)\<lparr>res_doc := Some r\<rparr>"
    and ex: "map status (filter (\<lambda>t. userId t = ''u1'') ?tasks)
            = [Some ''todo'', Some ''todo'', Some ''done'']
          \<longrightarrow> total r = 3 \<and> byStatus r = [(''todo'', 2), (''done'', 1)]"
    by blast
  have "total r = 3 \<and> byStatus r = [(''todo'', 2), (''done'', 1)]"
    using ex st by blast
  then show ?thesis using r by (cases r) simp
qed


section \<open>Title filter\<close>

text \<open>
  On a pattern of ordinary characters only, the engine's caseless search is the
  caseless substring test.
\<close>

lemma match_here_literals:
  "match_here True (map Literal p) s \<longleftrightarrow> prefix (map case_code p) (map case_code s)"
proof (induction p arbitrary: s)
  case Nil
  then show ?case by simp
next
  case (Cons a p)
  then show ?case by (cases s) (auto simp: same_char_def)
qed

lemma search_literals: "search True (map Literal p) s \<longleftrightarrow> contains_ci p s"
  by (induction s) (auto simp: contains_ci_def sublist_Cons_right match_here_literals)

lemma compile_fragment_plain:
  "\<forall>c \<in> set p. \<not> other_metachar c \<and> char_code c \<noteq> 46 \<Longrightarrow>
   compile_fragment p = Some (map Literal p)"
  by (induction p) auto

text \<open>
  So for a title parameter without metacharacters, and no other filter, \<open>getUserTasks\<close>
  sends exactly the owner's tasks whose title contains it, ordered by due date.
\<close>

lemma getUserTasks_plain_title:
  assumes "\<forall>c \<in> set p. \<not> other_metachar c \<and> char_code c \<noteq> 46" and "p \<noteq> []"
  shows "res_doc (getUserTasks parseDate fragment_regex uid tasks (title_query p))
         = Some (sort_key dueDate (filter (\<lambda>t. userId t = uid \<and> contains_ci p (title t)) tasks))"
  using assms(2)
  by (simp add: getUserTasks_def find_tasks_def build_filter_def title_query_def present_def
      truthy_def invalid_bound_def within_def fragment_regex_def respond_def sort_by_dueDate_def
      compile_fragment_plain[OF assms(1)] search_literals)

text \<open>
  Claim C9 fails on a parameter that holds a metacharacter: the parameter is handed to
  the store as a pattern, not as a text to look for. With the title parameter \<open>.\<close> the
  handler sends a task whose title has no dot in it.
\<close>

theorem title_filter_dot_is_a_pattern:
  "\<not> contains_ci ''.'' ''Comprar pan''
   \<and> filter_title (build_filter demo_parseDate ''u1'' (title_query ''.'')) = Some (''.'', ''i'')
   \<and> res_doc (getUserTasks demo_parseDate fragment_regex ''u1''
        [demo_task ''t1'' ''u1'' ''Comprar pan'' (Some ''todo'')] (title_query ''.''))
     = Some [demo_task ''t1'' ''u1'' ''Comprar pan'' (Some ''todo'')]"
proof -
  have a: "\<not> contains_ci ''.'' ''Comprar pan''"
    by (simp add: contains_ci_def case_code_def upper_AZ_def char_code_def sublist_Cons_right)
  have b: "filter_title (build_filter demo_parseDate ''u1'' (title_query ''.'')) = Some (''.'', ''i'')"
    by (simp add: build_filter_def title_query_def present_def truthy_def)
  have c: "res_doc (getUserTasks demo_parseDate fragment_regex ''u1''
        [demo_task ''t1'' ''u1'' ''Comprar pan'' (Some ''todo'')] (title_query ''.''))
     = Some [demo_task ''t1'' ''u1'' ''Comprar pan'' (Some ''todo'')]"
    by (simp add: getUserTasks_def find_tasks_def build_filter_def title_query_def present_def
      truthy_def invalid_bound_def within_def fragment_regex_def other_metachar_def char_code_def
      demo_task_def respond_def sort_by_dueDate_def)
  show ?thesis using a b c by simp
qed

end
